theory Spec2Isabelle
  imports Complex_Main "HOL-Library.Word" "HOL-Library.Sublist"
begin

section \<open>The depth layer of fetch\_depth\_layer: a shallow embedding of depth\_layer.cpp\<close>

text \<open>
  The theory follows \<^verbatim>\<open>src/fetch_depth_layer/src/depth_layer.cpp\<close>. The two callbacks
  of \<^verbatim>\<open>FetchDepthLayer\<close> become functions on an explicit layer state; what the
  callbacks do to their collaborators (logging, publishing, the observation buffers) is
  returned as a list of events, in program order; an exception that leaves a callback and
  a read outside a matrix are error values.
\<close>

subsection \<open>Floating-point values\<close>

text \<open>
  A \<^verbatim>\<open>float\<close> or \<^verbatim>\<open>double\<close> is not-a-number, an infinity or a finite value, which
  is a rational number. The two zeros are one value: the code compares with zero, adds,
  subtracts, multiplies, takes absolute values and divides by positive numbers only, where
  the two agree. An operation of the code is the exact operation on these values followed by
  the rounding to the format in which the code computes it, binary32 for \<^verbatim>\<open>float\<close>
  and binary64 for \<^verbatim>\<open>double\<close>, to the nearest value of the format, ties to even.
\<close>

datatype flt = NaN | PInf | NInf | Fin rat

fun isnan :: "flt \<Rightarrow> bool" where
  "isnan NaN = True"
| "isnan _ = False"

fun fneg :: "flt \<Rightarrow> flt" where
  "fneg NaN = NaN"
| "fneg PInf = NInf"
| "fneg NInf = PInf"
| "fneg (Fin a) = Fin (- a)"

text \<open>The exact operations on the extended values.\<close>

fun fabs :: "flt \<Rightarrow> flt" where
  "fabs NaN = NaN"
| "fabs PInf = PInf"
| "fabs NInf = PInf"
| "fabs (Fin a) = Fin \<bar>a\<bar>"

fun fadd :: "flt \<Rightarrow> flt \<Rightarrow> flt" where
  "fadd NaN _ = NaN"
| "fadd _ NaN = NaN"
| "fadd (Fin a) (Fin b) = Fin (a + b)"
| "fadd PInf NInf = NaN"
| "fadd NInf PInf = NaN"
| "fadd PInf _ = PInf"
| "fadd _ PInf = PInf"
| "fadd NInf _ = NInf"
| "fadd _ NInf = NInf"

definition fsub :: "flt \<Rightarrow> flt \<Rightarrow> flt" where
  "fsub a b = fadd a (fneg b)"

fun fmul :: "flt \<Rightarrow> flt \<Rightarrow> flt" where
  "fmul NaN _ = NaN"
| "fmul _ NaN = NaN"
| "fmul (Fin a) (Fin b) = Fin (a * b)"
| "fmul (Fin a) v = (if a = 0 then NaN else if 0 < a then v else fneg v)"
| "fmul v (Fin b) = (if b = 0 then NaN else if 0 < b then v else fneg v)"
| "fmul PInf v = v"
| "fmul NInf v = fneg v"

fun fdiv :: "flt \<Rightarrow> flt \<Rightarrow> flt" where
  "fdiv NaN _ = NaN"
| "fdiv _ NaN = NaN"
| "fdiv (Fin a) (Fin b) =
     (if b = 0 then (if a = 0 then NaN else if 0 < a then PInf else NInf)
      else Fin (a / b))"
| "fdiv (Fin a) _ = Fin 0"
| "fdiv v (Fin b) = (if 0 \<le> b then v else fneg v)"
| "fdiv _ _ = NaN"

text \<open>Rounding. \<open>bits n\<close> is the number of binary digits of a positive integer,
  \<open>exponent x\<close> the integer \<open>e\<close> with \<open>2^e \<le> |x| < 2^(e+1)\<close>, and \<open>nearest_even r\<close> the
  integer nearest to \<open>r\<close>, the even one of the two when \<open>r\<close> lies half way. A format has
  \<open>p\<close> significant binary digits and exponents from \<open>emin\<close> to \<open>emax\<close>: a number is
  rounded to a multiple \<open>n\<close> of \<open>2^(e - p + 1)\<close>, where \<open>e\<close> is its exponent, at least
  \<open>emin\<close> (below \<open>2^emin\<close> the values of the format are equally spaced), and becomes an
  infinity when the rounded value reaches \<open>2^(emax + 1)\<close>: when \<open>e\<close> exceeds \<open>emax\<close>, or
  \<open>e\<close> is \<open>emax\<close> and \<open>n\<close> reaches \<open>2^p\<close>.\<close>

function bits :: "int \<Rightarrow> nat" where
  "bits n = (if n \<le> 0 then 0 else Suc (bits (n div 2)))"
  by pat_completeness auto
termination
  by (relation "measure nat") auto

declare bits.simps [simp del]

definition pow2 :: "int \<Rightarrow> rat" where
  "pow2 k = (if 0 \<le> k then 2 ^ nat k else 1 / 2 ^ nat (- k))"

definition exponent :: "rat \<Rightarrow> int" where
  "exponent x =
     (case quotient_of \<bar>x\<bar> of (p, q) \<Rightarrow>
        let d = int (bits p) - int (bits q)
        in if pow2 d \<le> \<bar>x\<bar> then d else d - 1)"

definition nearest_even :: "rat \<Rightarrow> int" where
  "nearest_even r =
     (let f = \<lfloor>r\<rfloor>; d = r - of_int f
      in if d < 1 / 2 then f else if 1 / 2 < d then f + 1 else if even f then f else f + 1)"

definition round_to :: "nat \<Rightarrow> int \<Rightarrow> int \<Rightarrow> rat \<Rightarrow> flt" where
  "round_to p emin emax x =
     (if x = 0 then Fin 0
      else
        let e = max (exponent x) emin;
            q = pow2 (e - int p + 1);
            n = nearest_even (x / q)
        in if emax < e \<or> (e = emax \<and> 2 ^ p \<le> \<bar>n\<bar>)
           then (if 0 < x then PInf else NInf) else Fin (of_int n * q))"

text \<open>The conversion of a value to \<^verbatim>\<open>float\<close> and to \<^verbatim>\<open>double\<close>.\<close>

fun float_of :: "flt \<Rightarrow> flt" where
  "float_of (Fin x) = round_to 24 (- 126) 127 x"
| "float_of v = v"

fun double_of :: "flt \<Rightarrow> flt" where
  "double_of (Fin x) = round_to 53 (- 1022) 1023 x"
| "double_of v = v"

text \<open>The operations of the code on two \<^verbatim>\<open>float\<close>s, and on two \<^verbatim>\<open>double\<close>s.\<close>

definition fadd32 :: "flt \<Rightarrow> flt \<Rightarrow> flt" where
  "fadd32 a b = float_of (fadd a b)"

definition fsub32 :: "flt \<Rightarrow> flt \<Rightarrow> flt" where
  "fsub32 a b = float_of (fsub a b)"

definition fmul32 :: "flt \<Rightarrow> flt \<Rightarrow> flt" where
  "fmul32 a b = float_of (fmul a b)"

definition fdiv32 :: "flt \<Rightarrow> flt \<Rightarrow> flt" where
  "fdiv32 a b = float_of (fdiv a b)"

definition fadd64 :: "flt \<Rightarrow> flt \<Rightarrow> flt" where
  "fadd64 a b = double_of (fadd a b)"

definition fsub64 :: "flt \<Rightarrow> flt \<Rightarrow> flt" where
  "fsub64 a b = double_of (fsub a b)"

text \<open>A literal of the source such as \<^verbatim>\<open>0.1\<close> is the \<^verbatim>\<open>double\<close> nearest to it.\<close>

definition literal :: "rat \<Rightarrow> flt" where
  "literal x = double_of (Fin x)"

text \<open>The comparisons \<^verbatim>\<open><=\<close> and \<^verbatim>\<open><\<close>, exact on the values of both formats, and false
  as soon as one side is not a number.\<close>

fun fle :: "flt \<Rightarrow> flt \<Rightarrow> bool" where
  "fle NaN _ = False"
| "fle _ NaN = False"
| "fle (Fin a) (Fin b) = (a \<le> b)"
| "fle NInf _ = True"
| "fle _ PInf = True"
| "fle _ _ = False"

fun fless :: "flt \<Rightarrow> flt \<Rightarrow> bool" where
  "fless NaN _ = False"
| "fless _ NaN = False"
| "fless (Fin a) (Fin b) = (a < b)"
| "fless PInf _ = False"
| "fless _ NInf = False"
| "fless _ _ = True"

text \<open>\<^verbatim>\<open>v == 0.0\<close> is \<open>v = Fin 0\<close> and \<^verbatim>\<open>v != 0.0\<close> is \<open>v \<noteq> Fin 0\<close>, which holds of \<open>NaN\<close>.\<close>

subsection \<open>Messages, matrices and the layer's members\<close>

text \<open>\<^verbatim>\<open>sensor_msgs::CameraInfo\<close>: the projection matrix \<^verbatim>\<open>P\<close> is an array of twelve
  doubles, read at the indices 0, 2 and 6; the binning factors are \<^verbatim>\<open>uint32\<close>.\<close>

record CameraInfo =
  P :: "nat \<Rightarrow> flt"
  binning_x :: "32 word"
  binning_y :: "32 word"

text \<open>A \<^verbatim>\<open>cv::Mat\<close> with one element per pixel, stored row after row.\<close>

record 'a mat =
  rows :: nat
  cols :: nat
  elems :: "'a list"

datatype point32 = Point32 (pt_x: flt) (pt_y: flt) (pt_z: flt)

datatype vec4f = Vec4f flt flt flt flt

type_synonym mat33 = "flt list"

text \<open>\<^verbatim>\<open>sensor_msgs::Image\<close>, with the two fields of its header that the layer reads.\<close>

record Image =
  frame_id :: string
  stamp :: nat
  height :: nat
  width :: nat
  encoding :: string
  bytes :: "8 word list"

record PointCloud =
  pc_frame_id :: string
  pc_stamp :: nat
  points :: "point32 list"

text \<open>The members of \<^verbatim>\<open>FetchDepthLayer\<close> that \<^verbatim>\<open>onInitialize\<close> reads from the parameter
  server and that stay fixed afterwards. A member \<^verbatim>\<open>name_\<close> of the class is \<open>name\<close> here.\<close>

record params =
  publish_observations :: bool
  observations_threshold :: flt
  find_ground_plane :: bool
  ground_threshold :: flt
  clear_nans :: bool
  skip_rays_bottom :: int
  skip_rays_top :: int
  skip_rays_left :: int
  skip_rays_right :: int
  clear_with_skipped_rays :: bool

text \<open>The members the callbacks write: the intrinsics \<^verbatim>\<open>K_\<close> (an empty matrix until the
  first camera info), and the two estimators, created on the first frame that needs them
  from that frame's size and intrinsics, respectively from the separation threshold.\<close>

record layer =
  K :: "mat33 option"
  normals_estimator :: "(nat \<times> nat \<times> mat33) option"
  plane_estimator :: "flt option"

datatype log = Debug string | Error string

subsection \<open>cameraInfoCallback\<close>

text \<open>The conversion of a \<^verbatim>\<open>uint32\<close> to \<^verbatim>\<open>float\<close>, which rounds above \<open>2^24\<close>.\<close>

definition uint_to_float :: "32 word \<Rightarrow> flt" where
  "uint_to_float b = float_of (Fin (of_int (uint b)))"

text \<open>The three values of \<^verbatim>\<open>P\<close> are narrowed to \<^verbatim>\<open>float\<close> variables; a quotient is
  computed in \<^verbatim>\<open>float\<close> (the \<^verbatim>\<open>uint32\<close> is converted first) and stored in the matrix
  of \<^verbatim>\<open>double\<close>s, which changes no value.\<close>

definition cameraInfoCallback :: "layer \<Rightarrow> CameraInfo \<Rightarrow> layer \<times> log list" where
  "cameraInfoCallback st msg =
     (let focal_pixels = float_of (P msg 0);
          center_x = float_of (P msg 2);
          center_y = float_of (P msg 6)
      in if binning_x msg = binning_y msg then
           (if 0 < binning_x msg then
              (st\<lparr>K := Some
                 [fdiv32 focal_pixels (uint_to_float (binning_x msg)), Fin 0,
                    fdiv32 center_x (uint_to_float (binning_x msg)),
                  Fin 0, fdiv32 focal_pixels (uint_to_float (binning_x msg)),
                    fdiv32 center_y (uint_to_float (binning_x msg)),
                  Fin 0, Fin 0, Fin 1]\<rparr>, [])
            else
              (st\<lparr>K := Some
                 [focal_pixels, Fin 0, center_x,
                  Fin 0, focal_pixels, center_y,
                  Fin 0, Fin 0, Fin 1]\<rparr>, []))
         else (st, [Error ''binning_x is not equal to binning_y'']))"

subsection \<open>What depthImageCallback calls\<close>

datatype channel = Clearing | Marking

text \<open>What a frame does to the outside, in program order: a log line, a cloud published
  on one of the two debug topics, and the three calls on an observation buffer.\<close>

datatype 'c event =
    Log log
  | Publish channel PointCloud
  | BufLock channel
  | BufferCloud channel 'c
  | BufUnlock channel

datatype tf_exception = LookupException | ConnectivityException | ExtrapolationException

text \<open>How a callback can end other than by returning: an exception of the transform
  library that nothing catches, or a matrix element read outside the matrix (OpenCV checks
  the indices of \<^verbatim>\<open>at\<close> in debug builds only; the read is undefined otherwise).\<close>

datatype error = TransformException tf_exception | OutsideMatrix

text \<open>
  The functions of cv\_bridge, OpenCV, tf and sensor\_msgs that the callback calls are not
  part of this repository; they are parameters of the model. \<open>toCvCopy\<close> returns the
  text of the \<^verbatim>\<open>cv_bridge::Exception\<close> or the decoded image; the two tf calls return
  the exception they throw or their result; \<open>convertPointCloudToPointCloud2\<close> returns
  \<open>None\<close> for \<^verbatim>\<open>false\<close>. \<open>'c\<close> is \<^verbatim>\<open>sensor_msgs::PointCloud2\<close>.
\<close>

record 'c collaborators =
  toCvCopy :: "Image \<Rightarrow> string + flt mat"
  depthTo3d :: "flt mat \<Rightarrow> mat33 \<Rightarrow> point32 mat"
  RgbdNormals :: "nat \<times> nat \<times> mat33 \<Rightarrow> point32 mat \<Rightarrow> point32 mat"
  RgbdPlane :: "flt \<Rightarrow> point32 mat \<Rightarrow> point32 mat \<Rightarrow> vec4f list"
  transformVector :: "string \<Rightarrow> string \<Rightarrow> flt \<times> flt \<times> flt \<Rightarrow> tf_exception + flt \<times> flt \<times> flt"
  lookupTransform :: "string \<Rightarrow> string \<Rightarrow> tf_exception + flt \<times> flt \<times> flt"
  convertPointCloudToPointCloud2 :: "PointCloud \<Rightarrow> 'c option"

subsection \<open>depthImageCallback: invalid samples as far readings (lines 181--189)\<close>

text \<open>\<^verbatim>\<open>for (int i = 0; i < rows * cols; i++) if (isnan(at(i))) at(i) = 25.0;\<close>\<close>

function clear_nans_loop :: "flt mat \<Rightarrow> nat \<Rightarrow> error + flt mat" where
  "clear_nans_loop img i =
     (if i < rows img * cols img then
        (if i < length (elems img) then
           clear_nans_loop
             (if isnan (elems img ! i)
              then img\<lparr>elems := (elems img)[i := Fin 25]\<rparr> else img)
             (Suc i)
         else Inl OutsideMatrix)
      else Inr img)"
  by pat_completeness auto
termination
  by (relation "measure (\<lambda>(img, i). rows img * cols img - i)") auto

declare clear_nans_loop.simps [simp del]

definition clear_nans_stage :: "params \<Rightarrow> flt mat \<Rightarrow> error + flt mat" where
  "clear_nans_stage cfg img =
     (if clear_nans cfg then clear_nans_loop img 0 else Inr img)"

subsection \<open>depthImageCallback: the ground plane (lines 195--263)\<close>

text \<open>The orientation test of lines 232--234: a coefficient is a \<^verbatim>\<open>float\<close>, the sum or
  difference with the \<^verbatim>\<open>double\<close> literal is computed in \<^verbatim>\<open>double\<close>.\<close>

fun orientation_ok :: "flt \<Rightarrow> vec4f \<Rightarrow> bool" where
  "orientation_ok thr (Vec4f a b c d) =
     (fle (fabs (fsub64 (Fin 0) a)) thr \<and>
      fle (fabs (fadd64 (Fin 1) b)) thr \<and>
      fle (fabs (fsub64 (Fin 0) c)) thr)"

text \<open>The loop over \<^verbatim>\<open>plane_coefficients\<close>, which stops at the first plane that passes
  the orientation test; \<open>ground_plane\<close> is what the variable holds before the loop.\<close>

fun first_ground_plane :: "flt \<Rightarrow> vec4f list \<Rightarrow> vec4f \<Rightarrow> vec4f" where
  "first_ground_plane thr [] ground_plane = ground_plane"
| "first_ground_plane thr (pc # rest) ground_plane =
     (if orientation_ok thr pc then pc else first_ground_plane thr rest ground_plane)"

text \<open>\<^verbatim>\<open>cv::Vec4f ground_plane;\<close> the default constructor of \<^verbatim>\<open>cv::Vec\<close> sets every
  element to zero.\<close>

definition default_vec4f :: vec4f where
  "default_vec4f = Vec4f (Fin 0) (Fin 0) (Fin 0) (Fin 0)"

definition ground_plane_camera ::
  "params \<Rightarrow> 'c collaborators \<Rightarrow> layer \<Rightarrow> flt mat \<Rightarrow> mat33 \<Rightarrow> point32 mat \<Rightarrow> vec4f \<times> layer" where
  "ground_plane_camera cfg env st img k points3d =
     (let ne = (case normals_estimator st of
                  None \<Rightarrow> (rows img, cols img, k) | Some e \<Rightarrow> e);
          normals = RgbdNormals env ne points3d;
          pe = (case plane_estimator st of
                  None \<Rightarrow> observations_threshold cfg | Some t \<Rightarrow> t);
          plane_coefficients = RgbdPlane env pe points3d normals
      in (first_ground_plane (ground_threshold cfg) plane_coefficients default_vec4f,
          st\<lparr>normals_estimator := Some ne, plane_estimator := Some pe\<rparr>))"

text \<open>tf computes in \<^verbatim>\<open>double\<close>; the four coefficients of the plane are \<^verbatim>\<open>float\<close>s.\<close>

definition ground_plane_tf :: "'c collaborators \<Rightarrow> Image \<Rightarrow> error + vec4f" where
  "ground_plane_tf env msg =
     (case transformVector env (frame_id msg) ''base_link'' (Fin 0, Fin 0, Fin 1) of
        Inl e \<Rightarrow> Inl (TransformException e)
      | Inr (vx, vy, vz) \<Rightarrow>
          (case lookupTransform env ''base_link'' (frame_id msg) of
             Inl e \<Rightarrow> Inl (TransformException e)
           | Inr (ox, oy, oz) \<Rightarrow>
               Inr (Vec4f (float_of vx) (float_of vy) (float_of vz) (float_of oz))))"

definition ground_plane_stage ::
  "params \<Rightarrow> 'c collaborators \<Rightarrow> layer \<Rightarrow> Image \<Rightarrow> flt mat \<Rightarrow> mat33 \<Rightarrow> point32 mat
     \<Rightarrow> error + vec4f \<times> layer" where
  "ground_plane_stage cfg env st msg img k points3d =
     (if find_ground_plane cfg
      then Inr (ground_plane_camera cfg env st img k points3d)
      else (case ground_plane_tf env msg of
              Inl e \<Rightarrow> Inl e
            | Inr ground_plane \<Rightarrow> Inr (ground_plane, st)))"

fun no_ground_plane :: "vec4f \<Rightarrow> bool" where
  "no_ground_plane (Vec4f a b c d) = (a = Fin 0 \<and> b = Fin 0 \<and> c = Fin 0 \<and> d = Fin 0)"

subsection \<open>depthImageCallback: marking and clearing points (lines 276--356)\<close>

text \<open>\<^verbatim>\<open>m.at<float>(r, c)\<close> with \<^verbatim>\<open>int\<close> indices.\<close>

definition at2 :: "'a mat \<Rightarrow> int \<Rightarrow> int \<Rightarrow> error + 'a" where
  "at2 m r c =
     (if 0 \<le> r \<and> r < int (rows m) \<and> 0 \<le> c \<and> c < int (cols m) \<and>
         nat (r * int (cols m) + c) < length (elems m)
      then Inr (elems m ! nat (r * int (cols m) + c))
      else Inl OutsideMatrix)"

definition valid_point :: "point32 \<Rightarrow> bool" where
  "valid_point p =
     (pt_x p \<noteq> Fin 0 \<and> pt_y p \<noteq> Fin 0 \<and> pt_z p \<noteq> Fin 0 \<and>
      \<not> isnan (pt_x p) \<and> \<not> isnan (pt_y p) \<and> \<not> isnan (pt_z p))"

text \<open>
  The loop counters are \<^verbatim>\<open>size_t\<close>, the four margins and the matrix sizes are
  \<^verbatim>\<open>int\<close>: the differences \<^verbatim>\<open>rows - skip_rays_bottom_\<close> and \<^verbatim>\<open>cols - skip_rays_right_\<close>
  are computed in 32 bits, and every \<^verbatim>\<open>int\<close> compared with a counter is converted to
  64 bits unsigned first, so a negative number becomes a huge one.
\<close>

definition int_sub :: "int \<Rightarrow> int \<Rightarrow> int" where
  "int_sub a b = (a - b + 2 ^ 31) mod 2 ^ 32 - 2 ^ 31"

definition to_size_t :: "int \<Rightarrow> int" where
  "to_size_t v = v mod 2 ^ 64"

definition skipped_ray :: "params \<Rightarrow> 'a mat \<Rightarrow> nat \<Rightarrow> nat \<Rightarrow> bool" where
  "skipped_ray cfg points3d i j =
     (int i < to_size_t (skip_rays_top cfg) \<or>
      to_size_t (int_sub (int (rows points3d)) (skip_rays_bottom cfg)) \<le> int i \<or>
      int j < to_size_t (skip_rays_left cfg) \<or>
      to_size_t (int_sub (int (cols points3d)) (skip_rays_right cfg)) \<le> int j)"

text \<open>The distance of lines 316--319: three products and three sums of \<^verbatim>\<open>float\<close>s, each
  rounded to \<^verbatim>\<open>float\<close>, from left to right.\<close>

fun plane_distance :: "vec4f \<Rightarrow> point32 \<Rightarrow> flt" where
  "plane_distance (Vec4f a b c d) p =
     fabs (fadd32 (fadd32 (fadd32 (fmul32 a (pt_x p)) (fmul32 b (pt_y p)))
                     (fmul32 c (pt_z p))) d)"

definition near_floor :: "params \<Rightarrow> vec4f \<Rightarrow> point32 \<Rightarrow> bool" where
  "near_floor cfg ground_plane p =
     fle (plane_distance ground_plane p) (observations_threshold cfg)"

text \<open>The test of lines 337--342 on a neighbour \<open>q\<close> of the current point: each difference
  is a difference of two \<^verbatim>\<open>float\<close>s, compared with the \<^verbatim>\<open>double\<close> literal \<^verbatim>\<open>0.1\<close>.\<close>

definition supports :: "point32 \<Rightarrow> point32 \<Rightarrow> bool" where
  "supports current_point q =
     (valid_point q \<and>
      fless (fabs (fsub32 (pt_x q) (pt_x current_point))) (literal (1 / 10)) \<and>
      fless (fabs (fsub32 (pt_y q) (pt_y current_point))) (literal (1 / 10)) \<and>
      fless (fabs (fsub32 (pt_z q) (pt_z current_point))) (literal (1 / 10)))"

text \<open>The pairs \<open>(x, y)\<close> in the order in which the two inner loops visit them.\<close>

definition offsets :: "(int \<times> int) list" where
  "offsets = List.product [- 1, 0, 1] [- 1, 0, 1]"

fun count_valid ::
  "point32 mat \<Rightarrow> nat \<Rightarrow> nat \<Rightarrow> point32 \<Rightarrow> (int \<times> int) list \<Rightarrow> nat \<Rightarrow> error + nat" where
  "count_valid points3d i j current_point [] num_valid = Inr num_valid"
| "count_valid points3d i j current_point ((x, y) # rest) num_valid =
     (if x = 0 \<and> y = 0 then count_valid points3d i j current_point rest num_valid
      else
        (case at2 points3d (int i + x) (int j + y) of
           Inl e \<Rightarrow> Inl e
         | Inr q \<Rightarrow>
             count_valid points3d i j current_point rest
               (if supports current_point q then Suc num_valid else num_valid)))"

text \<open>The body of the inner loop at pixel \<open>(i, j)\<close>. The two clouds are the pair
  \<open>(clearing_points, marking_points)\<close>; \<^verbatim>\<open>push_back\<close> appends.\<close>

definition pixel ::
  "params \<Rightarrow> vec4f \<Rightarrow> point32 mat \<Rightarrow> nat \<Rightarrow> nat \<Rightarrow> point32 list \<times> point32 list
     \<Rightarrow> error + point32 list \<times> point32 list" where
  "pixel cfg ground_plane points3d i j acc =
     (case acc of (clearing_points, marking_points) \<Rightarrow>
      (case at2 points3d (int i) (int j) of
         Inl e \<Rightarrow> Inl e
       | Inr current_point \<Rightarrow>
           if valid_point current_point then
             (let clearing1 =
                    (if clear_with_skipped_rays cfg
                     then clearing_points @ [current_point] else clearing_points)
              in if skipped_ray cfg points3d i j then Inr (clearing1, marking_points)
                 else
                   (let clearing2 =
                          (if \<not> clear_with_skipped_rays cfg
                           then clearing1 @ [current_point] else clearing1)
                    in if near_floor cfg ground_plane current_point
                       then Inr (clearing2, marking_points)
                       else
                         (case count_valid points3d i j current_point offsets 0 of
                            Inl e \<Rightarrow> Inl e
                          | Inr num_valid \<Rightarrow>
                              Inr (clearing2,
                                   if 7 \<le> num_valid
                                   then marking_points @ [current_point]
                                   else marking_points))))
           else Inr (clearing_points, marking_points)))"

function cols_loop ::
  "params \<Rightarrow> vec4f \<Rightarrow> point32 mat \<Rightarrow> nat \<Rightarrow> nat \<Rightarrow> point32 list \<times> point32 list
     \<Rightarrow> error + point32 list \<times> point32 list" where
  "cols_loop cfg ground_plane points3d i j acc =
     (if j < cols points3d then
        (case pixel cfg ground_plane points3d i j acc of
           Inl e \<Rightarrow> Inl e
         | Inr acc' \<Rightarrow> cols_loop cfg ground_plane points3d i (Suc j) acc')
      else Inr acc)"
  by pat_completeness auto
termination
  by (relation "measure (\<lambda>(cfg, ground_plane, points3d, i, j, acc). cols points3d - j)") auto

declare cols_loop.simps [simp del]

function rows_loop ::
  "params \<Rightarrow> vec4f \<Rightarrow> point32 mat \<Rightarrow> nat \<Rightarrow> point32 list \<times> point32 list
     \<Rightarrow> error + point32 list \<times> point32 list" where
  "rows_loop cfg ground_plane points3d i acc =
     (if i < rows points3d then
        (case cols_loop cfg ground_plane points3d i 0 acc of
           Inl e \<Rightarrow> Inl e
         | Inr acc' \<Rightarrow> rows_loop cfg ground_plane points3d (Suc i) acc')
      else Inr acc)"
  by pat_completeness auto
termination
  by (relation "measure (\<lambda>(cfg, ground_plane, points3d, i, acc). rows points3d - i)") auto

declare rows_loop.simps [simp del]

definition classify ::
  "params \<Rightarrow> vec4f \<Rightarrow> point32 mat \<Rightarrow> error + point32 list \<times> point32 list" where
  "classify cfg ground_plane points3d = rows_loop cfg ground_plane points3d 0 ([], [])"

subsection \<open>depthImageCallback: the two observation buffers (lines 358--395)\<close>

definition conversion_failed :: "'c event" where
  "conversion_failed =
     Log (Error ''Failed to convert a PointCloud to a PointCloud2, dropping message'')"

definition buffer_marking ::
  "params \<Rightarrow> 'c collaborators \<Rightarrow> PointCloud \<Rightarrow> 'c event list" where
  "buffer_marking cfg env marking_points =
     (if 0 < length (points marking_points) then
        (if publish_observations cfg then [Publish Marking marking_points] else []) @
        (case convertPointCloudToPointCloud2 env marking_points of
           None \<Rightarrow> [conversion_failed]
         | Some marking_cloud2 \<Rightarrow>
             [BufLock Marking, BufferCloud Marking marking_cloud2, BufUnlock Marking])
      else [])"

definition buffer_clouds ::
  "params \<Rightarrow> 'c collaborators \<Rightarrow> PointCloud \<Rightarrow> PointCloud \<Rightarrow> 'c event list" where
  "buffer_clouds cfg env clearing_points marking_points =
     (if 0 < length (points clearing_points) then
        (if publish_observations cfg then [Publish Clearing clearing_points] else []) @
        (case convertPointCloudToPointCloud2 env clearing_points of
           None \<Rightarrow> [conversion_failed]
         | Some clearing_cloud2 \<Rightarrow>
             [BufLock Clearing, BufferCloud Clearing clearing_cloud2, BufUnlock Clearing] @
             buffer_marking cfg env marking_points)
      else buffer_marking cfg env marking_points)"

subsection \<open>depthImageCallback\<close>

definition cloud_of :: "Image \<Rightarrow> point32 list \<Rightarrow> PointCloud" where
  "cloud_of msg ps = \<lparr>pc_frame_id = frame_id msg, pc_stamp = stamp msg, points = ps\<rparr>"

definition depthImageCallback ::
  "params \<Rightarrow> 'c collaborators \<Rightarrow> layer \<Rightarrow> Image \<Rightarrow> error + layer \<times> 'c event list" where
  "depthImageCallback cfg env st msg =
     (case K st of
        None \<Rightarrow> Inr (st, [Log (Debug ''Camera info not yet received.'')])
      | Some k \<Rightarrow>
     (case toCvCopy env msg of
        Inl what \<Rightarrow> Inr (st, [Log (Error (''cv_bridge exception: '' @ what))])
      | Inr decoded \<Rightarrow>
     (case clear_nans_stage cfg decoded of
        Inl e \<Rightarrow> Inl e
      | Inr img \<Rightarrow>
     (let points3d = depthTo3d env img k in
     (case ground_plane_stage cfg env st msg img k points3d of
        Inl e \<Rightarrow> Inl e
      | Inr (ground_plane, st') \<Rightarrow>
          if no_ground_plane ground_plane
          then Inr (st', [Log (Debug ''Invalid ground plane.'')])
          else
            (case classify cfg ground_plane points3d of
               Inl e \<Rightarrow> Inl e
             | Inr (clearing_points, marking_points) \<Rightarrow>
                 Inr (st', buffer_clouds cfg env (cloud_of msg clearing_points)
                             (cloud_of msg marking_points))))))))"

subsection \<open>Reading the events of a frame\<close>

text \<open>The calls a list of events makes on the observation buffer of one channel, and
  everything it does on a channel (the published cloud as well).\<close>

fun on_buffer :: "channel \<Rightarrow> 'c event \<Rightarrow> bool" where
  "on_buffer ch (BufLock ch') = (ch' = ch)"
| "on_buffer ch (BufferCloud ch' c) = (ch' = ch)"
| "on_buffer ch (BufUnlock ch') = (ch' = ch)"
| "on_buffer ch _ = False"

fun on_channel :: "channel \<Rightarrow> 'c event \<Rightarrow> bool" where
  "on_channel ch (Publish ch' pc) = (ch' = ch)"
| "on_channel ch (Log l) = False"
| "on_channel ch ev = on_buffer ch ev"

definition buffer_calls :: "channel \<Rightarrow> 'c event list \<Rightarrow> 'c event list" where
  "buffer_calls ch evs = filter (on_buffer ch) evs"

text \<open>One hand-off of a converted cloud: lock, bufferCloud, unlock.\<close>

definition hand_off :: "channel \<Rightarrow> 'c \<Rightarrow> 'c event list" where
  "hand_off ch cloud2 = [BufLock ch, BufferCloud ch cloud2, BufUnlock ch]"

subsection \<open>The point grid as the specification describes it\<close>

text \<open>A matrix holds one element per pixel; \<open>cell m r c\<close> is the element of row \<open>r\<close> and
  column \<open>c\<close>, and \<open>neighbours m r c\<close> are the eight elements around it.\<close>

definition wf_mat :: "'a mat \<Rightarrow> bool" where
  "wf_mat m = (length (elems m) = rows m * cols m)"

definition cell :: "'a mat \<Rightarrow> nat \<Rightarrow> nat \<Rightarrow> 'a" where
  "cell m r c = elems m ! (r * cols m + c)"

definition neighbours :: "'a mat \<Rightarrow> nat \<Rightarrow> nat \<Rightarrow> 'a list" where
  "neighbours m r c =
     [cell m (r - 1) (c - 1), cell m (r - 1) c, cell m (r - 1) (c + 1),
      cell m r (c - 1), cell m r (c + 1),
      cell m (r + 1) (c - 1), cell m (r + 1) c, cell m (r + 1) (c + 1)]"

text \<open>The specification's supporting neighbour \<open>q\<close> of a point \<open>p\<close>: no coordinate of
  \<open>q\<close> is zero or not-a-number, and on each axis \<open>q\<close> and \<open>p\<close> differ by less than 0.1.
  Two values differ by less than 0.1 only if both are finite. Read on the numbers
  themselves, the difference is the exact one and 0.1 is one tenth.\<close>

fun differ_by_less_than_tenth :: "flt \<Rightarrow> flt \<Rightarrow> bool" where
  "differ_by_less_than_tenth (Fin a) (Fin b) = (\<bar>a - b\<bar> < 1 / 10)"
| "differ_by_less_than_tenth _ _ = False"

definition supporting_exactly :: "point32 \<Rightarrow> point32 \<Rightarrow> bool" where
  "supporting_exactly p q =
     ((pt_x q \<noteq> Fin 0 \<and> pt_x q \<noteq> NaN) \<and> (pt_y q \<noteq> Fin 0 \<and> pt_y q \<noteq> NaN) \<and>
      (pt_z q \<noteq> Fin 0 \<and> pt_z q \<noteq> NaN) \<and>
      differ_by_less_than_tenth (pt_x q) (pt_x p) \<and>
      differ_by_less_than_tenth (pt_y q) (pt_y p) \<and>
      differ_by_less_than_tenth (pt_z q) (pt_z p))"

text \<open>Read in single precision, the difference is the exact one rounded to \<^verbatim>\<open>float\<close> and
  0.1 is the \<^verbatim>\<open>double\<close> nearest to one tenth.\<close>

fun closer_than_tenth :: "flt \<Rightarrow> flt \<Rightarrow> bool" where
  "closer_than_tenth (Fin a) (Fin b) =
     fless (fabs (float_of (Fin (a - b)))) (literal (1 / 10))"
| "closer_than_tenth _ _ = False"

definition supporting :: "point32 \<Rightarrow> point32 \<Rightarrow> bool" where
  "supporting p q =
     ((pt_x q \<noteq> Fin 0 \<and> pt_x q \<noteq> NaN) \<and> (pt_y q \<noteq> Fin 0 \<and> pt_y q \<noteq> NaN) \<and>
      (pt_z q \<noteq> Fin 0 \<and> pt_z q \<noteq> NaN) \<and>
      closer_than_tenth (pt_x q) (pt_x p) \<and> closer_than_tenth (pt_y q) (pt_y p) \<and>
      closer_than_tenth (pt_z q) (pt_z p))"

text \<open>The distance of a point to the plane \<open>a x + b y + c z + d = 0\<close> as the specification
  writes it, on the numbers themselves.\<close>

fun exact_plane_distance :: "vec4f \<Rightarrow> point32 \<Rightarrow> flt" where
  "exact_plane_distance (Vec4f a b c d) p =
     fabs (fadd (fadd (fadd (fmul a (pt_x p)) (fmul b (pt_y p))) (fmul c (pt_z p))) d)"

text \<open>The four margins of the specification, each a number of pixels: a pixel is in a margin
  when its row is among the first \<open>skip_rays_top\<close> or the last \<open>skip_rays_bottom\<close> rows, or
  its column among the first \<open>skip_rays_left\<close> or the last \<open>skip_rays_right\<close> columns.
  The margins are counts when none is negative; they and the sizes of the matrix are
  \<^verbatim>\<open>int\<close>s.\<close>

definition in_margin :: "params \<Rightarrow> 'a mat \<Rightarrow> nat \<Rightarrow> nat \<Rightarrow> bool" where
  "in_margin cfg m r c =
     (int r < skip_rays_top cfg \<or> int (rows m) - skip_rays_bottom cfg \<le> int r \<or>
      int c < skip_rays_left cfg \<or> int (cols m) - skip_rays_right cfg \<le> int c)"

definition margin_counts :: "params \<Rightarrow> 'a mat \<Rightarrow> bool" where
  "margin_counts cfg m =
     (0 \<le> skip_rays_top cfg \<and> skip_rays_top cfg < 2 ^ 31 \<and>
      0 \<le> skip_rays_left cfg \<and> skip_rays_left cfg < 2 ^ 31 \<and>
      0 \<le> skip_rays_bottom cfg \<and> skip_rays_bottom cfg < 2 ^ 31 \<and>
      0 \<le> skip_rays_right cfg \<and> skip_rays_right cfg < 2 ^ 31 \<and>
      rows m < 2 ^ 31 \<and> cols m < 2 ^ 31)"

text \<open>The intrinsics of the specification, on the numbers themselves: the focal length and
  the principal point divided by the binning factor when it is positive, the raw values
  when it is 0.\<close>

definition exact_intrinsics :: "CameraInfo \<Rightarrow> mat33" where
  "exact_intrinsics msg =
     (if 0 < binning_x msg then
        [fdiv (P msg 0) (Fin (of_int (uint (binning_x msg)))), Fin 0,
           fdiv (P msg 2) (Fin (of_int (uint (binning_x msg)))),
         Fin 0, fdiv (P msg 0) (Fin (of_int (uint (binning_x msg)))),
           fdiv (P msg 6) (Fin (of_int (uint (binning_x msg)))),
         Fin 0, Fin 0, Fin 1]
      else [P msg 0, Fin 0, P msg 2, Fin 0, P msg 0, P msg 6, Fin 0, Fin 0, Fin 1])"

text \<open>The pixels in the order of the two loops, and the pixels whose point the loops put
  into the clearing cloud, respectively into the marking cloud.\<close>

definition pixels :: "'a mat \<Rightarrow> (nat \<times> nat) list" where
  "pixels m = List.product [0..<rows m] [0..<cols m]"

definition clears :: "params \<Rightarrow> point32 mat \<Rightarrow> nat \<times> nat \<Rightarrow> bool" where
  "clears cfg m rc =
     (case rc of (r, c) \<Rightarrow>
        valid_point (cell m r c) \<and> (clear_with_skipped_rays cfg \<or> \<not> skipped_ray cfg m r c))"

definition marks :: "params \<Rightarrow> vec4f \<Rightarrow> point32 mat \<Rightarrow> nat \<times> nat \<Rightarrow> bool" where
  "marks cfg ground_plane m rc =
     (case rc of (r, c) \<Rightarrow>
        valid_point (cell m r c) \<and> \<not> skipped_ray cfg m r c \<and>
        \<not> near_floor cfg ground_plane (cell m r c) \<and>
        7 \<le> length (filter (supporting (cell m r c)) (neighbours m r c)))"

text \<open>Margins of one pixel or more on each side that fit into the matrix.\<close>

definition margins_fit :: "params \<Rightarrow> 'a mat \<Rightarrow> bool" where
  "margins_fit cfg m =
     (1 \<le> skip_rays_top cfg \<and> skip_rays_top cfg < 2 ^ 31 \<and>
      1 \<le> skip_rays_left cfg \<and> skip_rays_left cfg < 2 ^ 31 \<and>
      1 \<le> skip_rays_bottom cfg \<and> skip_rays_bottom cfg \<le> int (rows m) \<and>
      1 \<le> skip_rays_right cfg \<and> skip_rays_right cfg \<le> int (cols m) \<and>
      rows m < 2 ^ 31 \<and> cols m < 2 ^ 31)"

text \<open>The loop body run over a list of pixels, stopping at the first error.\<close>

fun over_pixels ::
  "params \<Rightarrow> vec4f \<Rightarrow> point32 mat \<Rightarrow> (nat \<times> nat) list \<Rightarrow> point32 list \<times> point32 list
     \<Rightarrow> error + point32 list \<times> point32 list" where
  "over_pixels cfg ground_plane points3d [] acc = Inr acc"
| "over_pixels cfg ground_plane points3d ((i, j) # rest) acc =
     (case pixel cfg ground_plane points3d i j acc of
        Inl e \<Rightarrow> Inl e
      | Inr acc' \<Rightarrow> over_pixels cfg ground_plane points3d rest acc')"

subsection \<open>Concrete inputs\<close>

text \<open>The parameter values of \<^verbatim>\<open>onInitialize\<close> when the parameter server sets none.\<close>

definition default_params :: params where
  "default_params =
     \<lparr>publish_observations = False,
      observations_threshold = literal (6 / 100),
      find_ground_plane = True,
      ground_threshold = literal (9 / 10),
      clear_nans = False,
      skip_rays_bottom = 20,
      skip_rays_top = 20,
      skip_rays_left = 20,
      skip_rays_right = 20,
      clear_with_skipped_rays = False\<rparr>"

definition margin1 :: params where
  "margin1 = default_params\<lparr>skip_rays_bottom := 1, skip_rays_top := 1, skip_rays_left := 1,
                            skip_rays_right := 1\<rparr>"

text \<open>A camera info with the focal length \<open>f\<close> and the principal point (320, 240).\<close>

definition info :: "flt \<Rightarrow> 32 word \<Rightarrow> 32 word \<Rightarrow> CameraInfo" where
  "info f bx by =
     \<lparr>P = (\<lambda>i. if i = 0 then f else if i = 2 then Fin 320 else if i = 6 then Fin 240
                else Fin 0),
      binning_x = bx, binning_y = by\<rparr>"

text \<open>The layer before the first camera info, after an unbinned one, and after a first
  frame of three rows and columns in which the camera looked for the ground plane.\<close>

definition layer0 :: layer where
  "layer0 = \<lparr>K = None, normals_estimator = None, plane_estimator = None\<rparr>"

definition layer1 :: layer where
  "layer1 = fst (cameraInfoCallback layer0 (info (Fin 500) 0 0))"

definition layer2 :: layer where
  "layer2 = layer1\<lparr>normals_estimator := Some (3, 3, the (K layer1)),
                    plane_estimator := Some (observations_threshold default_params)\<rparr>"

definition pt :: "rat \<Rightarrow> rat \<Rightarrow> rat \<Rightarrow> point32" where
  "pt a b c = Point32 (Fin a) (Fin b) (Fin c)"

definition frame3 :: Image where
  "frame3 = \<lparr>frame_id = ''head_camera_depth_optical_frame'', stamp = 7, height = 3,
             width = 3, encoding = ''32FC1'', bytes = replicate 36 0\<rparr>"

definition depth3 :: "flt mat" where
  "depth3 = \<lparr>rows = 3, cols = 3, elems = replicate 9 (Fin 2)\<rparr>"

text \<open>A patch of a surface two metres ahead, 1/128 of a metre between neighbours; all
  coordinates are \<^verbatim>\<open>float\<close>s.\<close>

definition grid3 :: "point32 mat" where
  "grid3 = \<lparr>rows = 3, cols = 3, elems =
     [pt 1 1 2, pt (129 / 128) 1 2, pt (130 / 128) 1 2,
      pt 1 (129 / 128) 2, pt (129 / 128) (129 / 128) 2, pt (130 / 128) (129 / 128) 2,
      pt 1 (130 / 128) 2, pt (129 / 128) (130 / 128) 2, pt (130 / 128) (130 / 128) 2]\<rparr>"

definition centre :: point32 where
  "centre = pt (129 / 128) (129 / 128) 2"

text \<open>Two horizontal planes in the optical frame (whose \<open>y\<close> axis points down): one half a
  metre below the camera, one through the centre of the patch.\<close>

definition shelf :: vec4f where
  "shelf = Vec4f (Fin 0) (Fin (- 1)) (Fin 0) (Fin (1 / 2))"

definition floor_plane :: vec4f where
  "floor_plane = Vec4f (Fin 0) (Fin (- 1)) (Fin 0) (Fin (129 / 128))"

text \<open>Collaborators that return the given image, point grid, candidate planes, transform
  results and conversion.\<close>

definition collab ::
  "flt mat \<Rightarrow> point32 mat \<Rightarrow> vec4f list \<Rightarrow> (tf_exception + flt \<times> flt \<times> flt)
     \<Rightarrow> (tf_exception + flt \<times> flt \<times> flt) \<Rightarrow> (PointCloud \<Rightarrow> PointCloud option)
     \<Rightarrow> PointCloud collaborators" where
  "collab img pts planes vec origin conv =
     \<lparr>toCvCopy = (\<lambda>m. Inr img),
      depthTo3d = (\<lambda>d k. pts),
      RgbdNormals = (\<lambda>e g. g),
      RgbdPlane = (\<lambda>t g n. planes),
      transformVector = (\<lambda>target source v. vec),
      lookupTransform = (\<lambda>target source. origin),
      convertPointCloudToPointCloud2 = conv\<rparr>"

definition no_tf :: "tf_exception + flt \<times> flt \<times> flt" where
  "no_tf = Inl LookupException"

definition cloud :: "point32 list \<Rightarrow> PointCloud" where
  "cloud ps = cloud_of frame3 ps"

text \<open>A conversion that fails on clouds of two points or more.\<close>

definition short_only :: "PointCloud \<Rightarrow> PointCloud option" where
  "short_only pc = (if length (points pc) < 2 then Some pc else None)"

text \<open>A bottom margin of five rows on the three rows of the patch.\<close>

definition deep_bottom :: params where
  "deep_bottom = margin1\<lparr>skip_rays_bottom := 5\<rparr>"

text \<open>A patch whose centre is \<open>-5 / 2^30\<close> on the \<open>x\<close> axis and whose eight other points are
  \<open>13421772 / 2^27\<close>, the \<^verbatim>\<open>float\<close> below one tenth; all coordinates are \<^verbatim>\<open>float\<close>s.\<close>

definition near_tenth :: point32 where
  "near_tenth = pt (13421772 / 2 ^ 27) 1 2"

definition origin_side :: point32 where
  "origin_side = pt (- 5 / 2 ^ 30) 1 2"

definition tenth_grid :: "point32 mat" where
  "tenth_grid = \<lparr>rows = 3, cols = 3, elems =
     [near_tenth, near_tenth, near_tenth,
      near_tenth, origin_side, near_tenth,
      near_tenth, near_tenth, near_tenth]\<rparr>"

text \<open>A sloping plane with the \<^verbatim>\<open>float\<close> coefficients \<^verbatim>\<open>-0.8f\<close>, \<^verbatim>\<open>-0.6f\<close> and \<^verbatim>\<open>1.1f\<close>,
  and a patch of nine times the same point, whose \<open>z\<close> is \<^verbatim>\<open>1.23333335f\<close>.\<close>

definition slope :: vec4f where
  "slope = Vec4f (Fin 0) (float_of (Fin (- 8 / 10))) (float_of (Fin (- 6 / 10)))
             (float_of (Fin (11 / 10)))"

definition above_slope :: point32 where
  "above_slope = Point32 (Fin (65 / 64)) (Fin (3 / 8)) (float_of (Fin (123333335 / 100000000)))"

definition slope_grid :: "point32 mat" where
  "slope_grid = \<lparr>rows = 3, cols = 3, elems = replicate 9 above_slope\<rparr>"

text \<open>Points and planes whose coordinates and coefficients are \<^verbatim>\<open>float\<close>s.\<close>

definition float_point :: "point32 \<Rightarrow> bool" where
  "float_point p =
     (float_of (pt_x p) = pt_x p \<and> float_of (pt_y p) = pt_y p \<and> float_of (pt_z p) = pt_z p)"

fun float_plane :: "vec4f \<Rightarrow> bool" where
  "float_plane (Vec4f a b c d) =
     (float_of a = a \<and> float_of b = b \<and> float_of c = c \<and> float_of d = d)"

lemmas inputs = frame3_def depth3_def grid3_def centre_def margin1_def shelf_def
  floor_plane_def default_params_def pt_def

section \<open>Rounding\<close>

text \<open>\<open>exponent x\<close> is the exponent of \<open>x\<close>, \<open>nearest_even\<close> is at most one half away from
  its argument and even half way between two integers; hence a finite result of \<open>round_to\<close> is
  at most half a spacing away from the number, and a multiple of the spacing is not
  changed.\<close>

lemma pow2_powi: "pow2 k = 2 powi k"
proof (cases "0 \<le> k")
  case True
  then show ?thesis by (simp add: pow2_def power_int_def)
next
  case False
  have "inverse (2::rat) ^ nat (- k) = 1 / 2 ^ nat (- k)"
    by (simp add: power_one_over)
  with False show ?thesis by (simp add: pow2_def power_int_def)
qed

lemma pow2_pos: "0 < pow2 k"
  by (simp add: pow2_powi)

lemma pow2_add: "pow2 (a + b) = pow2 a * pow2 b"
  by (simp add: pow2_powi power_int_add)

lemma pow2_diff: "pow2 (a - b) = pow2 a / pow2 b"
  by (simp add: pow2_powi power_int_diff)

lemma pow2_Suc: "pow2 (k + 1) = 2 * pow2 k"
  by (simp add: pow2_powi power_int_add_1)

lemma pow2_mono: "a \<le> b \<Longrightarrow> pow2 a \<le> pow2 b"
  by (simp add: pow2_powi power_int_increasing)

lemma pow2_nat: "pow2 (int n) = 2 ^ n"
  by (simp add: pow2_def)

lemma bits_pos: "0 < n \<Longrightarrow> bits n = Suc (bits (n div 2))"
  by (subst bits.simps) simp

lemma bits_bounds: "0 < n \<Longrightarrow> 2 ^ (bits n - 1) \<le> n \<and> n < 2 ^ bits n"
proof (induction n rule: bits.induct)
  case (1 n)
  show ?case
  proof (cases "n div 2 = 0")
    case True
    with "1.prems" have "n = 1" by presburger
    then show ?thesis by (simp add: bits.simps)
  next
    case False
    with "1.prems" have h: "0 < n div 2" by presburger
    from "1.IH" [OF _ h] "1.prems"
    have ih: "2 ^ (bits (n div 2) - 1) \<le> n div 2" "n div 2 < 2 ^ bits (n div 2)"
      by simp_all
    have b: "bits n = Suc (bits (n div 2))" using "1.prems" by (rule bits_pos)
    have p: "0 < bits (n div 2)" using h by (simp add: bits_pos)
    then have "(2::int) ^ bits (n div 2) = 2 * 2 ^ (bits (n div 2) - 1)"
      by (cases "bits (n div 2)") simp_all
    with ih(1) have "2 ^ bits (n div 2) \<le> 2 * (n div 2)" by simp
    also have "\<dots> \<le> n" by presburger
    finally have lo: "2 ^ (bits n - 1) \<le> n" by (simp add: b)
    have "n < 2 * (n div 2 + 1)" by presburger
    also have "\<dots> \<le> 2 * 2 ^ bits (n div 2)" using ih(2) by simp
    finally have "n < 2 ^ bits n" by (simp add: b)
    with lo show ?thesis ..
  qed
qed


lemma exponent_bounds:
  assumes "x \<noteq> 0"
  shows "pow2 (exponent x) \<le> \<bar>x\<bar> \<and> \<bar>x\<bar> < pow2 (exponent x + 1)"
proof -
  obtain p q where pq: "quotient_of \<bar>x\<bar> = (p, q)" by (cases "quotient_of \<bar>x\<bar>")
  then have q: "0 < q" by (rule quotient_of_denom_pos)
  from pq have x: "\<bar>x\<bar> = of_int p / of_int q" by (rule quotient_of_div)
  from assms have "0 < \<bar>x\<bar>" by simp
  with x q have p: "0 < p" by (simp add: zero_less_divide_iff)
  let ?d = "int (bits p) - int (bits q)"
  from bits_bounds [OF p] have bp: "2 ^ (bits p - 1) \<le> p" "p < 2 ^ bits p" by simp_all
  from bits_bounds [OF q] have bq: "2 ^ (bits q - 1) \<le> q" "q < 2 ^ bits q" by simp_all
  have bp1: "1 \<le> bits p" and bq1: "1 \<le> bits q"
    using p q by (simp_all add: bits_pos)
  have "(of_int (2 ^ (bits p - 1)) :: rat) \<le> of_int p" "(of_int p :: rat) < of_int (2 ^ bits p)"
    using bp by (simp_all only: of_int_le_iff of_int_less_iff)
  then have rp: "(2::rat) ^ (bits p - 1) \<le> of_int p" "(of_int p :: rat) < 2 ^ bits p"
    by simp_all
  have "(of_int (2 ^ (bits q - 1)) :: rat) \<le> of_int q" "(of_int q :: rat) < of_int (2 ^ bits q)"
    using bq by (simp_all only: of_int_le_iff of_int_less_iff)
  then have rq: "(2::rat) ^ (bits q - 1) \<le> of_int q" "(of_int q :: rat) < 2 ^ bits q"
    by simp_all
  have qpos: "(0::rat) < of_int q" and ppos: "(0::rat) < of_int p"
    using p q by simp_all
  have up: "\<bar>x\<bar> < pow2 (?d + 1)"
  proof -
    have "?d + 1 = int (bits p) - int (bits q - 1)" using bq1 by simp
    then have e: "pow2 (?d + 1) = 2 ^ bits p / 2 ^ (bits q - 1)"
      by (simp only: pow2_diff pow2_nat)
    have "of_int p * (2::rat) ^ (bits q - 1) < 2 ^ bits p * of_int q"
      using rp(2) rq(1) ppos by (intro mult_less_le_imp_less) simp_all
    then show ?thesis
      unfolding e x using qpos by (simp add: field_simps)
  qed
  have lo: "pow2 (?d - 1) < \<bar>x\<bar>"
  proof -
    have "?d - 1 = int (bits p - 1) - int (bits q)" using bp1 by simp
    then have e: "pow2 (?d - 1) = 2 ^ (bits p - 1) / 2 ^ bits q"
      by (simp only: pow2_diff pow2_nat)
    have "(2::rat) ^ (bits p - 1) * of_int q < of_int p * 2 ^ bits q"
      using rp(1) rq(2) qpos by (intro mult_le_less_imp_less) simp_all
    then show ?thesis
      unfolding e x using qpos by (simp add: field_simps)
  qed
  show ?thesis
  proof (cases "pow2 ?d \<le> \<bar>x\<bar>")
    case True
    then have "exponent x = ?d" by (simp add: exponent_def pq Let_def)
    with True up show ?thesis by simp
  next
    case False
    then have "exponent x = ?d - 1" by (simp add: exponent_def pq Let_def)
    with False lo show ?thesis by simp
  qed
qed

lemma nearest_even_close: "\<bar>of_int (nearest_even r) - r\<bar> \<le> 1 / 2"
proof -
  define d where "d = r - of_int \<lfloor>r\<rfloor>"
  have d: "0 \<le> d" "d < 1" unfolding d_def by linarith+
  have f: "of_int \<lfloor>r\<rfloor> - r = - d" unfolding d_def by simp
  consider "d < 1 / 2" | "1 / 2 < d" | "d = 1 / 2" by linarith
  then have "of_int (nearest_even r) - r = - d \<and> d \<le> 1 / 2 \<or>
             of_int (nearest_even r) - r = 1 - d \<and> 1 / 2 \<le> d"
  proof cases
    case 1
    then have "nearest_even r = \<lfloor>r\<rfloor>"
      by (simp add: nearest_even_def Let_def d_def)
    with 1 f show ?thesis by simp
  next
    case 2
    then have "nearest_even r = \<lfloor>r\<rfloor> + 1"
      by (simp add: nearest_even_def Let_def d_def)
    with 2 f show ?thesis by simp
  next
    case 3
    then have "nearest_even r = \<lfloor>r\<rfloor> \<or> nearest_even r = \<lfloor>r\<rfloor> + 1"
      by (simp add: nearest_even_def Let_def d_def)
    with 3 f show ?thesis by auto
  qed
  with d show ?thesis by (auto simp: abs_if)
qed

lemma nearest_even_tie: "r - of_int \<lfloor>r\<rfloor> = 1 / 2 \<Longrightarrow> even (nearest_even r)"
  by (simp add: nearest_even_def Let_def)

lemma nearest_even_of_int: "nearest_even (of_int n) = n"
  by (simp add: nearest_even_def)

lemma round_to_close:
  assumes "round_to p emin emax x = Fin y"
  shows "\<bar>y - x\<bar> \<le> pow2 (max (exponent x) emin - int p + 1) / 2"
proof (cases "x = 0")
  case True
  with assms show ?thesis by (simp add: round_to_def less_imp_le [OF pow2_pos])
next
  case False
  let ?q = "pow2 (max (exponent x) emin - int p + 1)"
  have q: "0 < ?q" by (rule pow2_pos)
  from assms False have y: "y = of_int (nearest_even (x / ?q)) * ?q"
    by (simp add: round_to_def Let_def split: if_splits)
  have "y - x = (of_int (nearest_even (x / ?q)) - x / ?q) * ?q"
    unfolding y using q by (simp add: left_diff_distrib)
  then have "\<bar>y - x\<bar> = \<bar>of_int (nearest_even (x / ?q)) - x / ?q\<bar> * \<bar>?q\<bar>"
    by (simp only: abs_mult)
  then have "\<bar>y - x\<bar> = \<bar>of_int (nearest_even (x / ?q)) - x / ?q\<bar> * ?q"
    using q by simp
  also have "\<dots> \<le> 1 / 2 * ?q"
    using nearest_even_close [of "x / ?q"] q by (intro mult_right_mono) simp_all
  finally show ?thesis by simp
qed

lemma round_to_multiple:
  assumes "x = of_int n * pow2 (max (exponent x) emin - int p + 1)" and "x \<noteq> 0"
    and "max (exponent x) emin < emax"
  shows "round_to p emin emax x = Fin x"
proof -
  let ?q = "pow2 (max (exponent x) emin - int p + 1)"
  have "x / ?q = of_int n"
    using assms(1) pow2_pos [of "max (exponent x) emin - int p + 1"]
    by (metis less_irrefl nonzero_eq_divide_eq)
  then have "nearest_even (x / ?q) = n" by (simp add: nearest_even_of_int)
  with assms show ?thesis by (auto simp: round_to_def Let_def)
qed

text \<open>The coordinates and coefficients of the concrete inputs are \<^verbatim>\<open>float\<close>s and the
  thresholds \<^verbatim>\<open>double\<close>s: the conversions leave them unchanged.\<close>

lemma concrete_inputs_are_floats:
  "list_all float_point (elems grid3) \<and> list_all float_point (elems tenth_grid) \<and>
   float_point above_slope \<and> float_plane shelf \<and> float_plane floor_plane \<and>
   float_plane slope \<and>
   double_of (observations_threshold margin1) = observations_threshold margin1 \<and>
   double_of (ground_threshold margin1) = ground_threshold margin1"
  by code_simp

section \<open>The intrinsics\<close>

lemma layer1_eq:
  "layer1 = \<lparr>K = Some [Fin 500, Fin 0, Fin 320, Fin 0, Fin 500, Fin 240, Fin 0, Fin 0, Fin 1],
             normals_estimator = None, plane_estimator = None\<rparr>"
  by code_simp

text \<open>
  Claim C7, as the specification states it: with equal binning factors the stored
  intrinsics are the focal length and the principal point divided by the factor when it is
  positive, and the raw values when it is 0. The callback narrows the three values to
  \<^verbatim>\<open>float\<close> and divides in \<^verbatim>\<open>float\<close>: with the focal length 500 and the factor 3 it
  stores 10922667 / 65536 and not 500 / 3, and with the \<^verbatim>\<open>double\<close> 525.3 and the factor 0
  it stores the \<^verbatim>\<open>float\<close> 8606515 / 16384 and not the raw value.
\<close>

theorem intrinsics_in_single_precision:
  "K (fst (cameraInfoCallback layer0 (info (Fin 500) 3 3))) =
     Some [Fin (10922667 / 65536), Fin 0, Fin (13981013 / 131072),
           Fin 0, Fin (10922667 / 65536), Fin 80, Fin 0, Fin 0, Fin 1] \<and>
   exact_intrinsics (info (Fin 500) 3 3) =
     [Fin (500 / 3), Fin 0, Fin (320 / 3), Fin 0, Fin (500 / 3), Fin 80, Fin 0, Fin 0, Fin 1] \<and>
   K (fst (cameraInfoCallback layer0 (info (literal (5253 / 10)) 0 0))) =
     Some [Fin (8606515 / 16384), Fin 0, Fin 320, Fin 0, Fin (8606515 / 16384), Fin 240,
           Fin 0, Fin 0, Fin 1] \<and>
   exact_intrinsics (info (literal (5253 / 10)) 0 0) =
     [Fin (2310293832282931 / 4398046511104), Fin 0, Fin 320,
      Fin 0, Fin (2310293832282931 / 4398046511104), Fin 240, Fin 0, Fin 0, Fin 1]"
  by code_simp

text \<open>
  Claim C7, amended. A camera info whose two binning factors differ changes nothing in the
  layer and only logs an error. When the two factors are equal the stored intrinsics are
  replaced as a whole: by the focal length and the principal point narrowed to single
  precision and divided, in single precision, by the factor when the factor is positive,
  and by the narrowed values when it is 0.
\<close>

theorem cameraInfoCallback_binning:
  "(binning_x msg \<noteq> binning_y msg \<longrightarrow>
      cameraInfoCallback st msg = (st, [Error ''binning_x is not equal to binning_y''])) \<and>
   (binning_x msg = binning_y msg \<and> 0 < binning_x msg \<longrightarrow>
      cameraInfoCallback st msg =
        (st\<lparr>K := Some
           [fdiv32 (float_of (P msg 0)) (float_of (Fin (of_int (uint (binning_x msg))))), Fin 0,
              fdiv32 (float_of (P msg 2)) (float_of (Fin (of_int (uint (binning_x msg))))),
            Fin 0,
              fdiv32 (float_of (P msg 0)) (float_of (Fin (of_int (uint (binning_x msg))))),
              fdiv32 (float_of (P msg 6)) (float_of (Fin (of_int (uint (binning_x msg))))),
            Fin 0, Fin 0, Fin 1]\<rparr>, [])) \<and>
   (binning_x msg = binning_y msg \<and> binning_x msg = 0 \<longrightarrow>
      cameraInfoCallback st msg =
        (st\<lparr>K := Some [float_of (P msg 0), Fin 0, float_of (P msg 2),
                        Fin 0, float_of (P msg 0), float_of (P msg 6),
                        Fin 0, Fin 0, Fin 1]\<rparr>, []))"
proof (cases "binning_x msg = binning_y msg")
  case False
  then show ?thesis
    by (simp add: cameraInfoCallback_def Let_def)
next
  case True
  show ?thesis
  proof (cases "0 < binning_x msg")
    case True
    with \<open>binning_x msg = binning_y msg\<close> show ?thesis
      by (simp add: cameraInfoCallback_def uint_to_float_def Let_def)
  next
    case False
    then have "binning_x msg = 0"
      by (simp add: word_greater_zero_iff)
    with \<open>binning_x msg = binning_y msg\<close> show ?thesis
      by (simp add: cameraInfoCallback_def Let_def)
  qed
qed

theorem cameraInfoCallback_binning_witness:
  "cameraInfoCallback layer1 (info (Fin 500) 1 2) =
     (layer1, [Error ''binning_x is not equal to binning_y'']) \<and>
   cameraInfoCallback layer1 (info (Fin 500) 3 3) =
     (layer1\<lparr>K := Some [Fin (10922667 / 65536), Fin 0, Fin (13981013 / 131072),
                         Fin 0, Fin (10922667 / 65536), Fin 80, Fin 0, Fin 0, Fin 1]\<rparr>, []) \<and>
   cameraInfoCallback layer0 (info (literal (5253 / 10)) 0 0) =
     (layer0\<lparr>K := Some [Fin (8606515 / 16384), Fin 0, Fin 320,
                         Fin 0, Fin (8606515 / 16384), Fin 240, Fin 0, Fin 0, Fin 1]\<rparr>, [])"
proof -
  have v: "fdiv32 (float_of (Fin 500)) (float_of (Fin 3)) = Fin (10922667 / 65536)"
    "fdiv32 (Fin 320) (float_of (Fin 3)) = Fin (13981013 / 131072)"
    "fdiv32 (Fin 240) (float_of (Fin 3)) = Fin 80"
    "float_of (literal (5253 / 10)) = Fin (8606515 / 16384)"
    "float_of (Fin 320) = Fin 320" "float_of (Fin 240) = Fin 240"
    by code_simp+
  show ?thesis
    using cameraInfoCallback_binning [of "info (Fin 500) 1 2" layer1]
      cameraInfoCallback_binning [of "info (Fin 500) 3 3" layer1]
      cameraInfoCallback_binning [of "info (literal (5253 / 10)) 0 0" layer0]
    by (simp add: info_def v del: float_of.simps)
qed

section \<open>Invalid samples as far readings\<close>

lemma clear_nans_loop_map:
  "length (elems img) = rows img * cols img \<Longrightarrow>
   clear_nans_loop img i =
     Inr (img\<lparr>elems := take i (elems img) @
            map (\<lambda>v. if isnan v then Fin 25 else v) (drop i (elems img))\<rparr>)"
proof (induction img i rule: clear_nans_loop.induct)
  case (1 img i)
  let ?f = "\<lambda>v. if isnan v then Fin 25 else v"
  show ?case
  proof (cases "i < rows img * cols img")
    case False
    with "1.prems" show ?thesis by (subst clear_nans_loop.simps) simp
  next
    case True
    with "1.prems" have lt: "i < length (elems img)" by simp
    let ?img' = "if isnan (elems img ! i) then img\<lparr>elems := (elems img)[i := Fin 25]\<rparr> else img"
    have e: "elems ?img' = (elems img)[i := ?f (elems img ! i)]" by simp
    have wf': "length (elems ?img') = rows ?img' * cols ?img'" using "1.prems" by simp
    have ih: "clear_nans_loop ?img' (Suc i) =
        Inr (?img'\<lparr>elems := take (Suc i) (elems ?img') @ map ?f (drop (Suc i) (elems ?img'))\<rparr>)"
      using "1.IH"[OF True lt wf'] .
    have "take (Suc i) (elems ?img') @ map ?f (drop (Suc i) (elems ?img')) =
          take i (elems img) @ map ?f (drop i (elems img))"
      unfolding e using lt
      by (simp add: take_Suc_conv_app_nth Cons_nth_drop_Suc[symmetric])
    moreover have "clear_nans_loop img i = clear_nans_loop ?img' (Suc i)"
      using True lt by (subst clear_nans_loop.simps) simp
    ultimately show ?thesis using ih by (simp split: if_splits)
  qed
qed

lemma no_nan_left:
  "list_all (\<lambda>v. \<not> isnan v) (map (\<lambda>v. if isnan v then Fin 25 else v) xs)"
  by (induction xs) simp_all

text \<open>
  Claim C3, as the specification states it: with \<open>clear_nans\<close>, every sample that is 0 or
  not a number is replaced by 25.0. The loop tests \<^verbatim>\<open>isnan\<close> only: in a row of two samples,
  0 and not-a-number, the second becomes 25 and the first stays 0.
\<close>

theorem clear_nans_keeps_zero_depth:
  "clear_nans (default_params\<lparr>clear_nans := True\<rparr>) \<and>
   clear_nans_stage (default_params\<lparr>clear_nans := True\<rparr>)
      \<lparr>rows = 1, cols = 2, elems = [Fin 0, NaN]\<rparr> =
     Inr \<lparr>rows = 1, cols = 2, elems = [Fin 0, Fin 25]\<rparr>"
  by (simp add: clear_nans_stage_def default_params_def clear_nans_loop.simps)

text \<open>
  Claim C3, amended: with \<open>clear_nans\<close>, every sample that is not a number is replaced by
  25.0 before the conversion to 3D and every other sample, a depth of 0 included, is left as
  it is; no not-a-number is left in the image.
\<close>

theorem clear_nans_replaces_nan:
  assumes "clear_nans cfg" and "length (elems img) = rows img * cols img"
  shows "clear_nans_stage cfg img =
           Inr (img\<lparr>elems := map (\<lambda>v. if isnan v then Fin 25 else v) (elems img)\<rparr>) \<and>
         list_all (\<lambda>v. \<not> isnan v) (map (\<lambda>v. if isnan v then Fin 25 else v) (elems img))"
proof -
  have "list_all (\<lambda>v. \<not> isnan v) (map (\<lambda>v. if isnan v then Fin 25 else v) (elems img))"
    by (rule no_nan_left)
  moreover have "clear_nans_stage cfg img =
      Inr (img\<lparr>elems := map (\<lambda>v. if isnan v then Fin 25 else v) (elems img)\<rparr>)"
    using assms clear_nans_loop_map [of img 0] by (simp add: clear_nans_stage_def)
  ultimately show ?thesis by simp
qed

theorem clear_nans_replaces_nan_witness:
  "clear_nans_stage (default_params\<lparr>clear_nans := True\<rparr>)
      \<lparr>rows = 2, cols = 2, elems = [Fin 0, NaN, Fin 3, NaN]\<rparr> =
     Inr \<lparr>rows = 2, cols = 2, elems = [Fin 0, Fin 25, Fin 3, Fin 25]\<rparr>"
  using clear_nans_replaces_nan [of "default_params\<lparr>clear_nans := True\<rparr>"
      "\<lparr>rows = 2, cols = 2, elems = [Fin 0, NaN, Fin 3, NaN]\<rparr>"]
  by (simp add: default_params_def)

section \<open>The ground plane\<close>

lemma first_ground_plane_none:
  "\<forall>pc \<in> set plane_coefficients. \<not> orientation_ok thr pc \<Longrightarrow>
   first_ground_plane thr plane_coefficients ground_plane = ground_plane"
  by (induction plane_coefficients) auto

lemma no_ground_plane_default: "no_ground_plane default_vec4f"
  by (simp add: default_vec4f_def)

text \<open>When the camera looks for the ground plane and no candidate passes the orientation
  test, the plane is the one the variable was constructed with, all zero.\<close>

lemma ground_plane_camera_none:
  assumes "\<forall>pc \<in> set (RgbdPlane env pe points3d normals). \<not> orientation_ok (ground_threshold cfg) pc"
    and "pe = (case plane_estimator st of None \<Rightarrow> observations_threshold cfg | Some t \<Rightarrow> t)"
    and "normals = RgbdNormals env
           (case normals_estimator st of None \<Rightarrow> (rows img, cols img, k) | Some e \<Rightarrow> e) points3d"
  shows "no_ground_plane (fst (ground_plane_camera cfg env st img k points3d))"
  using assms
  by (simp add: ground_plane_camera_def Let_def first_ground_plane_none no_ground_plane_default)

text \<open>A frame that gets as far as the classification is handed to the two buffers.\<close>

lemma depthImageCallback_processed:
  assumes "K st = Some k"
    and "toCvCopy env msg = Inr decoded"
    and "clear_nans_stage cfg decoded = Inr img"
    and "ground_plane_stage cfg env st msg img k (depthTo3d env img k) = Inr (ground_plane, st')"
    and "\<not> no_ground_plane ground_plane"
    and "classify cfg ground_plane (depthTo3d env img k) = Inr (clearing_points, marking_points)"
  shows "depthImageCallback cfg env st msg =
           Inr (st', buffer_clouds cfg env (cloud_of msg clearing_points)
                       (cloud_of msg marking_points))"
  using assms by (simp add: depthImageCallback_def Let_def)

text \<open>
  Claim C1. A frame whose ground plane, from the camera or from tf, is (0,0,0,0) is dropped
  before the classification: the callback returns with one debug line as its only event,
  so that no point reaches a cloud, nothing is published and no buffer is called.
\<close>

theorem no_ground_plane_drops_frame:
  assumes "K st = Some k"
    and "toCvCopy env msg = Inr decoded"
    and "clear_nans_stage cfg decoded = Inr img"
    and "ground_plane_stage cfg env st msg img k (depthTo3d env img k) = Inr (ground_plane, st')"
    and "no_ground_plane ground_plane"
  shows "depthImageCallback cfg env st msg = Inr (st', [Log (Debug ''Invalid ground plane.'')]) \<and>
         filter (on_channel Clearing) [Log (Debug ''Invalid ground plane.'')] = [] \<and>
         filter (on_channel Marking) [Log (Debug ''Invalid ground plane.'')] = []"
  using assms by (simp add: depthImageCallback_def Let_def)

theorem no_ground_plane_drops_frame_witness:
  "depthImageCallback margin1
     (collab depth3 grid3 [Vec4f (Fin 1) (Fin 0) (Fin 0) (Fin 1)] no_tf no_tf Some)
     layer1 frame3 =
     Inr (layer2, [Log (Debug ''Invalid ground plane.'')]) \<and>
   depthImageCallback (margin1\<lparr>find_ground_plane := False\<rparr>)
     (collab depth3 grid3 [] (Inr (Fin 0, Fin 0, Fin 0)) (Inr (Fin 1, Fin 2, Fin 0)) Some)
     layer1 frame3 =
     Inr (layer1, [Log (Debug ''Invalid ground plane.'')])"
proof -
  let ?e1 = "collab depth3 grid3 [Vec4f (Fin 1) (Fin 0) (Fin 0) (Fin 1)] no_tf no_tf Some"
  let ?e2 = "collab depth3 grid3 [] (Inr (Fin 0, Fin 0, Fin 0)) (Inr (Fin 1, Fin 2, Fin 0)) Some"
  let ?k = "[Fin 500, Fin 0, Fin 320, Fin 0, Fin 500, Fin 240, Fin 0, Fin 0, Fin 1]"
  have k: "K layer1 = Some ?k"
    by (simp add: layer1_eq)
  have a: "toCvCopy ?e1 frame3 = Inr depth3" "toCvCopy ?e2 frame3 = Inr depth3"
    by (simp_all add: collab_def)
  have b: "clear_nans_stage margin1 depth3 = Inr depth3"
    "clear_nans_stage (margin1\<lparr>find_ground_plane := False\<rparr>) depth3 = Inr depth3"
    by (simp_all add: clear_nans_stage_def margin1_def default_params_def)
  have c1: "ground_plane_stage margin1 ?e1 layer1 frame3 depth3 ?k
              (depthTo3d ?e1 depth3 ?k) = Inr (default_vec4f, layer2)"
    by code_simp
  have c2: "ground_plane_stage (margin1\<lparr>find_ground_plane := False\<rparr>) ?e2 layer1 frame3
              depth3 ?k (depthTo3d ?e2 depth3 ?k) = Inr (default_vec4f, layer1)"
    by code_simp
  show ?thesis
    using no_ground_plane_drops_frame [OF k a(1) b(1) c1 no_ground_plane_default]
      no_ground_plane_drops_frame [OF k a(2) b(2) c2 no_ground_plane_default]
    by simp
qed

text \<open>Without \<open>find_ground_plane\<close>, a failure of either tf call leaves the callback as an
  exception: no handler stands between the two calls and the caller.\<close>

lemma transform_failure_escapes:
  assumes "\<not> find_ground_plane cfg" and "K st = Some k"
    and "toCvCopy env msg = Inr decoded"
    and "clear_nans_stage cfg decoded = Inr img"
    and "transformVector env (frame_id msg) ''base_link'' (Fin 0, Fin 0, Fin 1) = Inl e \<or>
         lookupTransform env ''base_link'' (frame_id msg) = Inl e"
  shows "\<exists>e'. depthImageCallback cfg env st msg = Inl (TransformException e')"
  using assms
  by (auto simp: depthImageCallback_def Let_def ground_plane_stage_def ground_plane_tf_def
      split: sum.splits prod.splits)

text \<open>
  Claim C2 says that such a frame takes the path of the all-zero plane and is dropped
  there. On a frame whose optical frame tf does not know, the callback does not return the
  debug line of that path: it ends with the lookup exception.
\<close>

theorem transform_failure_not_caught:
  "depthImageCallback (margin1\<lparr>find_ground_plane := False\<rparr>)
     (collab depth3 grid3 [] no_tf no_tf Some) layer1 frame3 =
     Inl (TransformException LookupException)"
  by (simp add: depthImageCallback_def Let_def ground_plane_stage_def ground_plane_tf_def
      layer1_eq collab_def no_tf_def margin1_def default_params_def clear_nans_stage_def)

section \<open>The two observation buffers\<close>

lemma buffer_calls_hand_off:
  "buffer_calls ch (hand_off ch' c) = (if ch' = ch then hand_off ch' c else [])"
  by (simp add: buffer_calls_def hand_off_def)

lemma buffer_calls_append:
  "buffer_calls ch (xs @ ys) = buffer_calls ch xs @ buffer_calls ch ys"
  by (simp add: buffer_calls_def)

lemma buffer_calls_publish: "buffer_calls ch (if b then [Publish ch' pc] else []) = []"
  by (simp add: buffer_calls_def)

lemma buffer_calls_failed: "buffer_calls ch [conversion_failed] = []"
  by (simp add: buffer_calls_def conversion_failed_def)

lemma buffer_marking_calls:
  "buffer_calls ch (buffer_marking cfg env marking_points) =
     (if ch = Marking \<and> points marking_points \<noteq> [] then
        (case convertPointCloudToPointCloud2 env marking_points of
           None \<Rightarrow> [] | Some c \<Rightarrow> hand_off Marking c)
      else [])"
  by (cases ch)
     (auto simp: buffer_marking_def buffer_calls_def hand_off_def conversion_failed_def
        split: option.splits)

lemma classify_shelf: "classify margin1 shelf grid3 = Inr ([centre], [centre])"
  by code_simp

text \<open>
  Claim C8, as the specification states it: a channel is handed to its buffer if and only
  if its point set is not empty. On the patch above a shelf, both sets hold the centre
  point; when the conversion of the clearing cloud fails, the frame ends with the error
  line and neither buffer is called.
\<close>

theorem nonempty_channel_not_buffered:
  "classify margin1 shelf grid3 = Inr ([centre], [centre]) \<and>
   depthImageCallback margin1 (collab depth3 grid3 [shelf] no_tf no_tf (\<lambda>pc. None))
     layer1 frame3 = Inr (layer2, [conversion_failed]) \<and>
   buffer_calls Clearing [conversion_failed :: PointCloud event] = [] \<and>
   buffer_calls Marking [conversion_failed :: PointCloud event] = []"
proof -
  let ?e = "collab depth3 grid3 [shelf] no_tf no_tf (\<lambda>pc. None)"
  let ?k = "[Fin 500, Fin 0, Fin 320, Fin 0, Fin 500, Fin 240, Fin 0, Fin 0, Fin 1]"
  have k: "K layer1 = Some ?k"
    by (simp add: layer1_eq)
  have a: "toCvCopy ?e frame3 = Inr depth3"
    by (simp add: collab_def)
  have b: "clear_nans_stage margin1 depth3 = Inr depth3"
    by (simp add: clear_nans_stage_def margin1_def default_params_def)
  have c: "ground_plane_stage margin1 ?e layer1 frame3 depth3 ?k (depthTo3d ?e depth3 ?k) =
             Inr (shelf, layer2)"
    by code_simp
  have d: "\<not> no_ground_plane shelf"
    by (simp add: shelf_def)
  have g: "classify margin1 shelf (depthTo3d ?e depth3 ?k) = Inr ([centre], [centre])"
    using classify_shelf by (simp add: collab_def)
  have "depthImageCallback margin1 ?e layer1 frame3 =
          Inr (layer2, buffer_clouds margin1 ?e (cloud_of frame3 [centre])
                         (cloud_of frame3 [centre]))"
    by (rule depthImageCallback_processed [OF k a b c d g])
  moreover have "buffer_clouds margin1 ?e (cloud_of frame3 [centre]) (cloud_of frame3 [centre]) =
                   [conversion_failed]"
    by (simp add: buffer_clouds_def cloud_of_def collab_def margin1_def default_params_def)
  ultimately show ?thesis
    using classify_shelf by (simp add: buffer_calls_failed)
qed

text \<open>
  Claim C8, amended: the buffer of the clearing channel is called (lock, bufferCloud,
  unlock) if and only if the clearing set is not empty and its conversion succeeds; the
  buffer of the marking channel is called if and only if the marking set is not empty, its
  conversion succeeds and the frame was not abandoned before, that is, the clearing set was
  empty or its conversion succeeded. An empty channel produces no call at all.
\<close>

theorem buffer_clouds_calls:
  "buffer_calls Clearing (buffer_clouds cfg env clearing_points marking_points) =
     (if points clearing_points \<noteq> [] then
        (case convertPointCloudToPointCloud2 env clearing_points of
           None \<Rightarrow> [] | Some c \<Rightarrow> hand_off Clearing c)
      else []) \<and>
   buffer_calls Marking (buffer_clouds cfg env clearing_points marking_points) =
     (if points marking_points \<noteq> [] \<and>
         (points clearing_points = [] \<or>
          convertPointCloudToPointCloud2 env clearing_points \<noteq> None) then
        (case convertPointCloudToPointCloud2 env marking_points of
           None \<Rightarrow> [] | Some c \<Rightarrow> hand_off Marking c)
      else [])"
proof (cases "points clearing_points = []")
  case True
  then show ?thesis
    by (simp add: buffer_clouds_def buffer_marking_calls)
next
  case False
  show ?thesis
  proof (cases "convertPointCloudToPointCloud2 env clearing_points")
    case None
    with False show ?thesis
      by (simp add: buffer_clouds_def buffer_calls_append buffer_calls_publish
          buffer_calls_failed)
  next
    case (Some c)
    have "[BufLock Clearing, BufferCloud Clearing c, BufUnlock Clearing] = hand_off Clearing c"
      by (simp add: hand_off_def)
    with False Some show ?thesis
      by (simp add: buffer_clouds_def buffer_calls_append buffer_calls_publish
          buffer_calls_hand_off buffer_marking_calls)
  qed
qed

theorem buffer_clouds_calls_witness:
  "buffer_calls Clearing
     (buffer_clouds margin1 (collab depth3 grid3 [] no_tf no_tf Some) (cloud [centre]) (cloud [])) =
     hand_off Clearing (cloud [centre]) \<and>
   buffer_calls Marking
     (buffer_clouds margin1 (collab depth3 grid3 [] no_tf no_tf Some) (cloud [centre]) (cloud [])) =
     [] \<and>
   buffer_calls Marking
     (buffer_clouds margin1 (collab depth3 grid3 [] no_tf no_tf Some) (cloud [centre])
        (cloud [centre])) =
     hand_off Marking (cloud [centre])"
  using buffer_clouds_calls [of margin1 "collab depth3 grid3 [] no_tf no_tf Some"
      "cloud [centre]" "cloud []"]
    buffer_clouds_calls [of margin1 "collab depth3 grid3 [] no_tf no_tf Some"
      "cloud [centre]" "cloud [centre]"]
  by (simp add: cloud_def cloud_of_def collab_def)

text \<open>
  Claim C10. When the clearing set is not empty and its conversion fails, the frame ends
  there: after the clearing cloud is published (if observations are published) and the error
  is logged, nothing happens on the marking channel, whatever the marking set holds and
  whatever its own conversion would return.
\<close>

theorem clearing_conversion_failure_drops_marking:
  assumes "points clearing_points \<noteq> []"
    and "convertPointCloudToPointCloud2 env clearing_points = None"
  shows "buffer_clouds cfg env clearing_points marking_points =
           (if publish_observations cfg then [Publish Clearing clearing_points] else []) @
           [conversion_failed] \<and>
         filter (on_channel Marking) (buffer_clouds cfg env clearing_points marking_points) = [] \<and>
         buffer_calls Clearing (buffer_clouds cfg env clearing_points marking_points) = []"
  using assms by (simp add: buffer_clouds_def conversion_failed_def buffer_calls_def)

theorem clearing_conversion_failure_drops_marking_witness:
  "points (cloud [centre]) \<noteq> [] \<and>
   short_only (cloud [centre]) = Some (cloud [centre]) \<and>
   buffer_clouds (margin1\<lparr>publish_observations := True\<rparr>)
     (collab depth3 grid3 [] no_tf no_tf short_only)
     (cloud [pt 1 1 2, centre]) (cloud [centre]) =
     [Publish Clearing (cloud [pt 1 1 2, centre]), conversion_failed]"
  using clearing_conversion_failure_drops_marking
    [of "cloud [pt 1 1 2, centre]" "collab depth3 grid3 [] no_tf no_tf short_only"
      "margin1\<lparr>publish_observations := True\<rparr>" "cloud [centre]"]
  by (simp add: cloud_def cloud_of_def collab_def short_only_def margin1_def default_params_def)

section \<open>Marking and clearing points\<close>

subsection \<open>Reads and the count of supporting neighbours\<close>

lemma isnan_iff: "isnan v \<longleftrightarrow> v = NaN"
  by (cases v) simp_all

lemma literal_tenth: "literal (1 / 10) = Fin (3602879701896397 / 2 ^ 55)"
  by code_simp

lemma fless_fabs_fsub32:
  "fless (fabs (fsub32 u v)) (literal (1 / 10)) = closer_than_tenth u v"
  by (cases u; cases v) (simp_all add: fsub32_def fsub_def literal_tenth)

text \<open>The test of the code on a neighbour is the supporting neighbour read in single
  precision.\<close>

lemma supports_iff_supporting: "supports p q = supporting p q"
  by (auto simp: supports_def supporting_def valid_point_def isnan_iff fless_fabs_fsub32)

lemma flat_index_less:
  assumes "r < (n::nat)" and "c < w"
  shows "r * w + c < n * w"
proof -
  have "r * w + c < r * w + w" using assms by simp
  also have "\<dots> = Suc r * w" by simp
  also have "\<dots> \<le> n * w" using assms by (intro mult_le_mono1) simp
  finally show ?thesis .
qed

lemma at2_inside:
  assumes "wf_mat m" and "r < rows m" and "c < cols m"
  shows "at2 m (int r) (int c) = Inr (cell m r c)"
proof -
  have "r * cols m + c < length (elems m)"
    using assms flat_index_less [of r "rows m" c "cols m"] by (simp add: wf_mat_def)
  moreover have "int r * int (cols m) + int c = int (r * cols m + c)" by simp
  ultimately show ?thesis
    using assms by (simp add: at2_def cell_def del: of_nat_add of_nat_mult)
qed

lemma at2_Inr_D:
  "at2 m r c = Inr v \<Longrightarrow> 0 \<le> r \<and> r < int (rows m) \<and> 0 \<le> c \<and> c < int (cols m)"
  by (simp add: at2_def split: if_splits)

lemma count_valid_acc:
  assumes "\<forall>(x, y) \<in> set offs. (x, y) \<noteq> (0, 0) \<longrightarrow> at2 g (int i + x) (int j + y) = Inr (f (x, y))"
  shows "count_valid g i j p offs n =
           Inr (n + length (filter (supports p) (map f (filter (\<lambda>xy. xy \<noteq> (0, 0)) offs))))"
  using assms
proof (induction offs arbitrary: n)
  case Nil
  then show ?case by simp
next
  case (Cons xy offs)
  obtain x y where o: "xy = (x, y)" by (cases xy)
  show ?case
  proof (cases "x = 0 \<and> y = 0")
    case True
    with Cons o show ?thesis by simp
  next
    case False
    with Cons.prems o have "at2 g (int i + x) (int j + y) = Inr (f (x, y))" by auto
    with Cons False o show ?thesis by auto
  qed
qed

lemma count_valid_interior:
  assumes "wf_mat g" and "1 \<le> i" and "Suc i < rows g" and "1 \<le> j" and "Suc j < cols g"
  shows "count_valid g i j p offsets 0 = Inr (length (filter (supports p) (neighbours g i j)))"
proof -
  let ?f = "\<lambda>(x, y). cell g (nat (int i + x)) (nat (int j + y))"
  have rd: "at2 g (int i + x) (int j + y) = Inr (?f (x, y))"
    if "x \<in> {- 1, 0, 1}" and "y \<in> {- 1, 0, 1}" for x y
  proof -
    have "nat (int i + x) < rows g" "nat (int j + y) < cols g"
      "int (nat (int i + x)) = int i + x" "int (nat (int j + y)) = int j + y"
      using that assms by auto
    with at2_inside [OF assms(1), of "nat (int i + x)" "nat (int j + y)"]
    show ?thesis by simp
  qed
  have "at2 g (int i + x) (int j + y) = Inr (?f (x, y))" if "(x, y) \<in> set offsets" for x y
  proof -
    from that have "x \<in> {- 1, 0, 1}" and "y \<in> {- 1, 0, 1}"
      by (auto simp: offsets_def)
    then show ?thesis by (rule rd)
  qed
  then have "\<forall>(x, y) \<in> set offsets. (x, y) \<noteq> (0, 0) \<longrightarrow>
          at2 g (int i + x) (int j + y) = Inr (?f (x, y))"
    by blast
  from count_valid_acc [OF this, of p 0]
  have "count_valid g i j p offsets 0 =
          Inr (length (filter (supports p) (map ?f (filter (\<lambda>xy. xy \<noteq> (0, 0)) offsets))))"
    by simp
  moreover have "map ?f (filter (\<lambda>xy. xy \<noteq> (0, 0)) offsets) = neighbours g i j"
    using assms by (simp add: offsets_def neighbours_def nat_diff_distrib' nat_add_distrib)
  ultimately show ?thesis by simp
qed

subsection \<open>The two loops visit every pixel once, row after row\<close>

lemma over_pixels_append:
  "over_pixels cfg ground_plane points3d (ps @ qs) acc =
     (case over_pixels cfg ground_plane points3d ps acc of
        Inl e \<Rightarrow> Inl e
      | Inr acc' \<Rightarrow> over_pixels cfg ground_plane points3d qs acc')"
  by (induction ps arbitrary: acc) (auto split: sum.splits)

lemma cols_loop_over_pixels:
  "cols_loop cfg ground_plane points3d i j acc =
     over_pixels cfg ground_plane points3d (map (Pair i) [j..<cols points3d]) acc"
proof (induction cfg ground_plane points3d i j acc rule: cols_loop.induct)
  case (1 cfg ground_plane points3d i j acc)
  show ?case
  proof (cases "j < cols points3d")
    case True
    then have "[j..<cols points3d] = j # [Suc j..<cols points3d]"
      by (simp add: upt_conv_Cons)
    with True "1.IH" show ?thesis
      by (subst cols_loop.simps) (simp split: sum.splits)
  next
    case False
    then show ?thesis by (subst cols_loop.simps) simp
  qed
qed

lemma rows_loop_over_pixels:
  "rows_loop cfg ground_plane points3d i acc =
     over_pixels cfg ground_plane points3d
       (List.product [i..<rows points3d] [0..<cols points3d]) acc"
proof (induction cfg ground_plane points3d i acc rule: rows_loop.induct)
  case (1 cfg ground_plane points3d i acc)
  show ?case
  proof (cases "i < rows points3d")
    case True
    then have u: "[i..<rows points3d] = i # [Suc i..<rows points3d]"
      by (simp add: upt_conv_Cons)
    have p: "List.product [i..<rows points3d] [0..<cols points3d] =
               map (Pair i) [0..<cols points3d] @
               List.product [Suc i..<rows points3d] [0..<cols points3d]"
      by (subst u) simp
    show ?thesis
    proof (cases "cols_loop cfg ground_plane points3d i 0 acc")
      case (Inl e)
      with True show ?thesis
        by (subst rows_loop.simps, subst p, subst over_pixels_append)
           (simp add: cols_loop_over_pixels [symmetric])
    next
      case (Inr acc')
      from "1.IH" [OF True Inr]
      have "rows_loop cfg ground_plane points3d (Suc i) acc' =
              over_pixels cfg ground_plane points3d
                (List.product [Suc i..<rows points3d] [0..<cols points3d]) acc'" .
      with True Inr show ?thesis
        by (subst rows_loop.simps, subst p, subst over_pixels_append)
           (simp add: cols_loop_over_pixels [symmetric])
    qed
  next
    case False
    then show ?thesis by (subst rows_loop.simps) simp
  qed
qed

lemma classify_over_pixels:
  "classify cfg ground_plane points3d =
     over_pixels cfg ground_plane points3d
       (List.product [0..<rows points3d] [0..<cols points3d]) ([], [])"
  unfolding classify_def by (rule rows_loop_over_pixels)

subsection \<open>The margins\<close>

text \<open>With margins that are not negative and not larger than the matrix, the edge test of
  the code is the edge test on numbers: the conversions to unsigned change nothing.\<close>

lemma skipped_ray_margins:
  assumes "0 \<le> skip_rays_top cfg" and "skip_rays_top cfg < 2 ^ 31"
    and "0 \<le> skip_rays_left cfg" and "skip_rays_left cfg < 2 ^ 31"
    and "0 \<le> skip_rays_bottom cfg" and "skip_rays_bottom cfg \<le> int (rows points3d)"
    and "0 \<le> skip_rays_right cfg" and "skip_rays_right cfg \<le> int (cols points3d)"
    and "rows points3d < 2 ^ 31" and "cols points3d < 2 ^ 31"
  shows "skipped_ray cfg points3d i j \<longleftrightarrow>
           int i < skip_rays_top cfg \<or> int (rows points3d) - skip_rays_bottom cfg \<le> int i \<or>
           int j < skip_rays_left cfg \<or> int (cols points3d) - skip_rays_right cfg \<le> int j"
proof -
  have t: "to_size_t v = v" if "0 \<le> v" "v < 2 ^ 31" for v
    using that by (simp add: to_size_t_def)
  have s: "int_sub a b = a - b" if "0 \<le> b" "b \<le> a" "a < 2 ^ 31" for a b
    using that by (simp add: int_sub_def)
  have r: "int (rows points3d) < 2 ^ 31" "int (cols points3d) < 2 ^ 31"
    using assms(9,10) by simp_all
  show ?thesis
    using assms r by (simp add: skipped_ray_def t s)
qed

lemma skipped_ray_in_margin:
  assumes "margin_counts cfg points3d"
    and "skip_rays_bottom cfg \<le> int (rows points3d)"
    and "skip_rays_right cfg \<le> int (cols points3d)"
  shows "skipped_ray cfg points3d i j = in_margin cfg points3d i j"
  using assms skipped_ray_margins [of cfg points3d i j]
  by (simp add: margin_counts_def in_margin_def)

text \<open>With margins that are counts, whatever their size, a pixel outside the margins passes
  the edge test of the code.\<close>

lemma outside_margin_not_skipped:
  assumes "margin_counts cfg points3d" and "\<not> in_margin cfg points3d i j"
  shows "\<not> skipped_ray cfg points3d i j"
proof -
  let ?b = "int (rows points3d) - skip_rays_bottom cfg"
  let ?r = "int (cols points3d) - skip_rays_right cfg"
  from assms have t: "0 \<le> skip_rays_top cfg" "skip_rays_top cfg \<le> int i"
    and l: "0 \<le> skip_rays_left cfg" "skip_rays_left cfg \<le> int j"
    and b: "int i < ?b" "?b < 2 ^ 31" and r: "int j < ?r" "?r < 2 ^ 31"
    by (simp_all add: margin_counts_def in_margin_def)
  have "to_size_t (skip_rays_top cfg) = skip_rays_top cfg"
    "to_size_t (skip_rays_left cfg) = skip_rays_left cfg"
    using assms(1) by (simp_all add: margin_counts_def to_size_t_def)
  moreover have "int_sub (int (rows points3d)) (skip_rays_bottom cfg) = ?b"
    "int_sub (int (cols points3d)) (skip_rays_right cfg) = ?r"
    using b r by (simp_all add: int_sub_def)
  moreover have "to_size_t ?b = ?b" "to_size_t ?r = ?r"
    using b r by (simp_all add: to_size_t_def)
  ultimately show ?thesis
    using t l b r by (simp add: skipped_ray_def)
qed

text \<open>With such margins of one pixel or more, a pixel outside the margins has its eight
  neighbours in the grid.\<close>

lemma not_skipped_interior:
  assumes "1 \<le> skip_rays_top cfg" and "skip_rays_top cfg < 2 ^ 31"
    and "1 \<le> skip_rays_left cfg" and "skip_rays_left cfg < 2 ^ 31"
    and "1 \<le> skip_rays_bottom cfg" and "skip_rays_bottom cfg \<le> int (rows points3d)"
    and "1 \<le> skip_rays_right cfg" and "skip_rays_right cfg \<le> int (cols points3d)"
    and "rows points3d < 2 ^ 31" and "cols points3d < 2 ^ 31"
    and "\<not> skipped_ray cfg points3d i j"
  shows "1 \<le> i \<and> Suc i < rows points3d \<and> 1 \<le> j \<and> Suc j < cols points3d"
proof -
  have "skipped_ray cfg points3d i j \<longleftrightarrow>
          int i < skip_rays_top cfg \<or> int (rows points3d) - skip_rays_bottom cfg \<le> int i \<or>
          int j < skip_rays_left cfg \<or> int (cols points3d) - skip_rays_right cfg \<le> int j"
    using assms(1-10) by (intro skipped_ray_margins) simp_all
  with assms show ?thesis by linarith
qed

lemma count_valid_error:
  "count_valid points3d i j p offs n = Inl e \<Longrightarrow> e = OutsideMatrix"
  by (induction points3d i j p offs n rule: count_valid.induct)
     (auto simp: at2_def split: if_splits sum.splits)

subsection \<open>The two clouds of a frame\<close>

lemma pixel_subseq:
  assumes "pixel cfg ground_plane points3d i j (cl, mk) = Inr (cl', mk')" and "subseq mk cl"
  shows "subseq mk' cl'"
proof -
  have a: "subseq mk (cl @ [p])" for p
    using assms(2) by (rule list_emb_prefix)
  have b: "subseq (mk @ [p]) (cl @ [p])" for p
    using assms(2) by (intro list_emb_append_mono) simp_all
  show ?thesis
    using assms a b
    by (auto simp: pixel_def Let_def split: sum.splits if_splits)
qed

lemma over_pixels_subseq:
  "over_pixels cfg ground_plane points3d ps (cl, mk) = Inr (cl', mk') \<Longrightarrow> subseq mk cl \<Longrightarrow>
   subseq mk' cl'"
proof (induction ps arbitrary: cl mk)
  case Nil
  then show ?case by simp
next
  case (Cons ij ps)
  obtain i j where ij: "ij = (i, j)" by (cases ij)
  from Cons.prems(1) ij obtain cl1 mk1 where
    p: "pixel cfg ground_plane points3d i j (cl, mk) = Inr (cl1, mk1)" and
    r: "over_pixels cfg ground_plane points3d ps (cl1, mk1) = Inr (cl', mk')"
    by (auto split: sum.splits)
  from pixel_subseq [OF p Cons.prems(2)] have "subseq mk1 cl1" .
  with Cons.IH r show ?case by blast
qed

text \<open>When the classification returns, its two clouds are the points of the clearing
  pixels and of the marking pixels, in the order of the loops.\<close>

lemma count_valid_reads:
  "count_valid g i j p offs n = Inr m \<Longrightarrow> (x, y) \<in> set offs \<Longrightarrow> (x, y) \<noteq> (0, 0) \<Longrightarrow>
   \<exists>q. at2 g (int i + x) (int j + y) = Inr q"
proof (induction g i j p offs n rule: count_valid.induct)
  case (1 points3d i j current_point num_valid)
  then show ?case by simp
next
  case (2 points3d i j current_point x' y' rest num_valid)
  show ?case
  proof (cases "x' = 0 \<and> y' = 0")
    case True
    with 2 show ?thesis by auto
  next
    case False
    with "2.prems"(1) obtain q where
      q: "at2 points3d (int i + x') (int j + y') = Inr q" and
      r: "count_valid points3d i j current_point rest
            (if supports current_point q then Suc num_valid else num_valid) = Inr m"
      by (auto split: sum.splits)
    show ?thesis
    proof (cases "(x, y) = (x', y')")
      case True
      with q show ?thesis by auto
    next
      case False
      with "2.prems"(2) have "(x, y) \<in> set rest" by auto
      from "2.IH"(2) [OF \<open>\<not> (x' = 0 \<and> y' = 0)\<close> q r this "2.prems"(3)]
      show ?thesis .
    qed
  qed
qed

lemma count_valid_Inr_interior:
  assumes "count_valid g i j p offsets 0 = Inr m"
  shows "1 \<le> i \<and> Suc i < rows g \<and> 1 \<le> j \<and> Suc j < cols g"
proof -
  have "(- 1, - 1) \<in> set offsets" "(1, 1) \<in> set offsets"
    by (simp_all add: offsets_def)
  with count_valid_reads [OF assms] obtain q q' where
    "at2 g (int i + (- 1)) (int j + (- 1)) = Inr q" "at2 g (int i + 1) (int j + 1) = Inr q'"
    by fastforce
  then show ?thesis
    by (auto dest!: at2_Inr_D)
qed

lemma pixel_step:
  assumes "wf_mat g" and "i < rows g" and "j < cols g"
    and "pixel cfg ground_plane g i j (cl, mk) = Inr (cl', mk')"
  shows "cl' = cl @ (if clears cfg g (i, j) then [cell g i j] else []) \<and>
         mk' = mk @ (if marks cfg ground_plane g (i, j) then [cell g i j] else [])"
proof -
  have rd: "at2 g (int i) (int j) = Inr (cell g i j)"
    using assms(1-3) by (rule at2_inside)
  show ?thesis
  proof (cases "valid_point (cell g i j) \<and> \<not> skipped_ray cfg g i j \<and>
                \<not> near_floor cfg ground_plane (cell g i j)")
    case False
    with assms(4) rd show ?thesis
      by (auto simp: pixel_def clears_def marks_def Let_def split: if_splits)
  next
    case True
    with assms(4) rd obtain n where
      n: "count_valid g i j (cell g i j) offsets 0 = Inr n"
      by (auto simp: pixel_def Let_def split: sum.splits)
    from count_valid_Inr_interior [OF n]
    have int: "1 \<le> i" "Suc i < rows g" "1 \<le> j" "Suc j < cols g" by simp_all
    have "pixel cfg ground_plane g i j (cl, mk) =
            Inr (cl @ [cell g i j],
                 if 7 \<le> length (filter (supporting (cell g i j)) (neighbours g i j))
                 then mk @ [cell g i j] else mk)"
      using count_valid_interior [OF assms(1) int, of "cell g i j"] rd True
      by (simp add: pixel_def supports_iff_supporting [abs_def])
    with assms(4) True show ?thesis
      by (auto simp: clears_def marks_def)
  qed
qed

lemma over_pixels_clouds:
  assumes "wf_mat g"
  shows "over_pixels cfg ground_plane g ps (cl, mk) = Inr (cl', mk') \<Longrightarrow>
         \<forall>(i, j) \<in> set ps. i < rows g \<and> j < cols g \<Longrightarrow>
         cl' = cl @ map (\<lambda>(i, j). cell g i j) (filter (clears cfg g) ps) \<and>
         mk' = mk @ map (\<lambda>(i, j). cell g i j) (filter (marks cfg ground_plane g) ps)"
proof (induction ps arbitrary: cl mk)
  case Nil
  then show ?case by simp
next
  case (Cons ij ps)
  obtain i j where ij: "ij = (i, j)" by (cases ij)
  from Cons.prems(1) ij obtain cl1 mk1 where
    p: "pixel cfg ground_plane g i j (cl, mk) = Inr (cl1, mk1)" and
    r: "over_pixels cfg ground_plane g ps (cl1, mk1) = Inr (cl', mk')"
    by (auto split: sum.splits)
  from Cons.prems(2) ij have b: "i < rows g" "j < cols g" by auto
  from Cons.prems(2) have rest: "\<forall>(i, j) \<in> set ps. i < rows g \<and> j < cols g" by auto
  from pixel_step [OF assms b p] Cons.IH [OF r rest] ij
  show ?case by auto
qed

lemma classify_clouds:
  assumes "wf_mat g" and "classify cfg ground_plane g = Inr (cl, mk)"
  shows "cl = map (\<lambda>(i, j). cell g i j) (filter (clears cfg g) (pixels g)) \<and>
         mk = map (\<lambda>(i, j). cell g i j) (filter (marks cfg ground_plane g) (pixels g))"
proof -
  have "\<forall>(i, j) \<in> set (pixels g). i < rows g \<and> j < cols g"
    by (auto simp: pixels_def)
  with over_pixels_clouds [OF assms(1), of cfg ground_plane "pixels g" "[]" "[]" cl mk] assms(2)
  show ?thesis
    by (simp add: classify_over_pixels pixels_def)
qed

text \<open>With margins of one pixel or more the classification reads no element outside the
  matrix: it returns.\<close>

lemma pixel_total:
  assumes "wf_mat g" and "i < rows g" and "j < cols g"
    and "\<not> skipped_ray cfg g i j \<longrightarrow> 1 \<le> i \<and> Suc i < rows g \<and> 1 \<le> j \<and> Suc j < cols g"
  shows "\<exists>acc'. pixel cfg ground_plane g i j acc = Inr acc'"
proof -
  obtain cl mk where acc: "acc = (cl, mk)" by (cases acc)
  have rd: "at2 g (int i) (int j) = Inr (cell g i j)"
    using assms(1-3) by (rule at2_inside)
  show ?thesis
  proof (cases "skipped_ray cfg g i j")
    case True
    with rd acc show ?thesis by (simp add: pixel_def Let_def)
  next
    case False
    with assms(4) have "1 \<le> i" "Suc i < rows g" "1 \<le> j" "Suc j < cols g" by simp_all
    from count_valid_interior [OF assms(1) this, of "cell g i j"] rd acc False
    show ?thesis by (simp add: pixel_def Let_def)
  qed
qed

lemma over_pixels_total:
  assumes "wf_mat g"
    and "\<forall>(i, j) \<in> set ps. i < rows g \<and> j < cols g \<and>
           (\<not> skipped_ray cfg g i j \<longrightarrow> 1 \<le> i \<and> Suc i < rows g \<and> 1 \<le> j \<and> Suc j < cols g)"
  shows "\<exists>acc'. over_pixels cfg ground_plane g ps acc = Inr acc'"
  using assms(2)
proof (induction ps arbitrary: acc)
  case Nil
  then show ?case by simp
next
  case (Cons ij ps)
  obtain i j where ij: "ij = (i, j)" by (cases ij)
  from Cons.prems ij have "i < rows g" "j < cols g"
    "\<not> skipped_ray cfg g i j \<longrightarrow> 1 \<le> i \<and> Suc i < rows g \<and> 1 \<le> j \<and> Suc j < cols g"
    by auto
  from pixel_total [OF assms(1) this, of ground_plane acc]
  obtain acc1 where p: "pixel cfg ground_plane g i j acc = Inr acc1" by blast
  from Cons.prems have "\<forall>(i, j) \<in> set ps. i < rows g \<and> j < cols g \<and>
           (\<not> skipped_ray cfg g i j \<longrightarrow> 1 \<le> i \<and> Suc i < rows g \<and> 1 \<le> j \<and> Suc j < cols g)"
    by auto
  from Cons.IH [OF this, of acc1] p ij show ?case by simp
qed

lemma classify_total:
  assumes "wf_mat points3d"
    and "1 \<le> skip_rays_top cfg" and "skip_rays_top cfg < 2 ^ 31"
    and "1 \<le> skip_rays_left cfg" and "skip_rays_left cfg < 2 ^ 31"
    and "1 \<le> skip_rays_bottom cfg" and "skip_rays_bottom cfg \<le> int (rows points3d)"
    and "1 \<le> skip_rays_right cfg" and "skip_rays_right cfg \<le> int (cols points3d)"
    and "rows points3d < 2 ^ 31" and "cols points3d < 2 ^ 31"
  shows "\<exists>clearing_points marking_points.
           classify cfg ground_plane points3d = Inr (clearing_points, marking_points)"
proof -
  have "\<forall>(i, j) \<in> set (pixels points3d). i < rows points3d \<and> j < cols points3d \<and>
          (\<not> skipped_ray cfg points3d i j \<longrightarrow>
             1 \<le> i \<and> Suc i < rows points3d \<and> 1 \<le> j \<and> Suc j < cols points3d)"
    using not_skipped_interior [OF assms(2-11)] by (auto simp: pixels_def)
  from over_pixels_total [OF assms(1) this, of ground_plane "([], [])"]
  show ?thesis by (auto simp: classify_over_pixels pixels_def)
qed

subsection \<open>Edge pixels and the clearing cloud\<close>

text \<open>With margins that are counts and fit into the matrix, the clearing cloud of a frame
  is what the specification says: the valid points of all pixels when
  \<open>clear_with_skipped_rays\<close> is set, and of the pixels outside the four margins otherwise.\<close>

lemma clearing_with_fitting_margins:
  assumes "wf_mat points3d" and "margin_counts cfg points3d"
    and "skip_rays_bottom cfg \<le> int (rows points3d)"
    and "skip_rays_right cfg \<le> int (cols points3d)"
    and "classify cfg ground_plane points3d = Inr (clearing_points, marking_points)"
  shows "clearing_points =
           map (\<lambda>(r, c). cell points3d r c)
             (filter (\<lambda>(r, c). valid_point (cell points3d r c) \<and>
                        (clear_with_skipped_rays cfg \<or> \<not> in_margin cfg points3d r c))
                (pixels points3d))"
proof -
  have "clears cfg points3d =
          (\<lambda>(r, c). valid_point (cell points3d r c) \<and>
             (clear_with_skipped_rays cfg \<or> \<not> in_margin cfg points3d r c))"
    using skipped_ray_in_margin [OF assms(2-4)]
    by (auto simp: clears_def fun_eq_iff)
  with classify_clouds [OF assms(1) assms(5)] show ?thesis by simp
qed

text \<open>
  Claim C4 says that a valid point whose pixel lies inside one of the four margins is in the
  clearing set only when \<open>clear_with_skipped_rays\<close> is set. On three rows with a bottom
  margin of five rows every pixel lies inside the bottom margin, and under the default
  policy the loops still put the points of the pixels (1, 1) and (2, 1) into the clearing
  cloud: \<^verbatim>\<open>points3d.rows - skip_rays_bottom_\<close> is negative and, compared with the
  \<^verbatim>\<open>size_t\<close> counter, a huge unsigned number, so that the test for the bottom margin never
  holds. The test for the top margin, which compares with the margin itself, skips every
  row when the top margin is that large.
\<close>

theorem bottom_margin_beyond_rows_not_skipped:
  "\<not> clear_with_skipped_rays deep_bottom \<and>
   in_margin deep_bottom grid3 1 1 \<and> in_margin deep_bottom grid3 2 1 \<and>
   cell grid3 1 1 = centre \<and> cell grid3 2 1 = pt (129 / 128) (130 / 128) 2 \<and>
   valid_point (cell grid3 1 1) \<and> valid_point (cell grid3 2 1) \<and>
   classify deep_bottom floor_plane grid3 =
     Inr ([centre, pt (129 / 128) (130 / 128) 2], []) \<and>
   classify (deep_bottom\<lparr>skip_rays_top := 5, skip_rays_bottom := 1\<rparr>) floor_plane grid3 =
     Inr ([], [])"
  by code_simp

subsection \<open>Supporting neighbours and the marking cloud\<close>

lemma over_pixels_each:
  "over_pixels cfg ground_plane points3d ps acc = Inr acc' \<Longrightarrow> (i, j) \<in> set ps \<Longrightarrow>
   \<exists>a a'. pixel cfg ground_plane points3d i j a = Inr a'"
proof (induction ps arbitrary: acc)
  case Nil
  then show ?case by simp
next
  case (Cons ij ps)
  obtain i' j' where ij: "ij = (i', j')" by (cases ij)
  from Cons.prems(1) ij obtain acc1 where
    p: "pixel cfg ground_plane points3d i' j' acc = Inr acc1" and
    r: "over_pixels cfg ground_plane points3d ps acc1 = Inr acc'"
    by (auto split: sum.splits)
  show ?case
  proof (cases "(i, j) = (i', j')")
    case True
    with p show ?thesis by blast
  next
    case False
    with Cons.prems(2) ij have "(i, j) \<in> set ps" by auto
    with Cons.IH [OF r] show ?thesis by blast
  qed
qed

text \<open>In a frame whose classification returns, a valid point that passes the edge test and
  is away from the floor has its eight neighbours in the grid.\<close>

lemma classified_candidate_interior:
  assumes "wf_mat points3d"
    and "classify cfg ground_plane points3d = Inr (clearing_points, marking_points)"
    and "i < rows points3d" and "j < cols points3d"
    and "valid_point (cell points3d i j)" and "\<not> skipped_ray cfg points3d i j"
    and "\<not> near_floor cfg ground_plane (cell points3d i j)"
  shows "1 \<le> i \<and> Suc i < rows points3d \<and> 1 \<le> j \<and> Suc j < cols points3d"
proof -
  have "(i, j) \<in> set (pixels points3d)"
    using assms(3,4) by (simp add: pixels_def)
  with assms(2) obtain a a' where p: "pixel cfg ground_plane points3d i j a = Inr a'"
    unfolding classify_over_pixels pixels_def by (blast dest: over_pixels_each)
  have rd: "at2 points3d (int i) (int j) = Inr (cell points3d i j)"
    using assms(1,3,4) by (rule at2_inside)
  from p rd assms(5-7) obtain n where
    "count_valid points3d i j (cell points3d i j) offsets 0 = Inr n"
    by (cases a) (auto simp: pixel_def Let_def split: sum.splits)
  then show ?thesis by (rule count_valid_Inr_interior)
qed

lemma classify_tenth_grid: "classify margin1 shelf tenth_grid = Inr ([origin_side], [])"
  by code_simp

text \<open>
  Claim C5, as the specification states it: a valid point outside the margins and away
  from the floor is marked if and only if at least 7 of its 8 neighbours have no zero and no
  not-a-number coordinate and differ from it by less than 0.1 on each axis. The code
  subtracts two \<^verbatim>\<open>float\<close>s, and the difference is rounded: around the point
  \<open>(-5 / 2^30, 1, 2)\<close>, eight neighbours \<open>(13421772 / 2^27, 1, 2)\<close> differ from it by
  0.0999999987 on the first axis and by nothing on the others, but each rounded difference
  is the \<^verbatim>\<open>float\<close> above one tenth, and the point is not marked.
\<close>

theorem exact_difference_below_tenth_not_marked:
  "cell tenth_grid 1 1 = origin_side \<and> valid_point origin_side \<and>
   \<not> in_margin margin1 tenth_grid 1 1 \<and>
   \<not> fle (exact_plane_distance shelf origin_side) (observations_threshold margin1) \<and>
   \<not> near_floor margin1 shelf origin_side \<and>
   neighbours tenth_grid 1 1 = replicate 8 near_tenth \<and>
   supporting_exactly origin_side near_tenth \<and>
   fsub (pt_x near_tenth) (pt_x origin_side) = Fin (107374181 / 2 ^ 30) \<and>
   fsub32 (pt_x near_tenth) (pt_x origin_side) = Fin (13421773 / 2 ^ 27) \<and>
   classify margin1 shelf tenth_grid = Inr ([origin_side], [])"
  by code_simp

text \<open>
  Claim C5, amended. In a frame whose classification returns, the marking cloud holds the
  points of the marked pixels, in the order of the loops; and a valid point outside the
  margins and away from the floor has its eight neighbours in the grid and is marked if and
  only if at least 7 of the 8 are supporting, where a neighbour supports the point when none
  of its coordinates is zero or not-a-number and, on each of the three axes, the difference
  of the two coordinates computed in single precision (the exact difference rounded to the
  nearest \<^verbatim>\<open>float\<close>) is less than 0.1 in absolute value. With fewer supporting neighbours,
  none included, the point is not marked.
\<close>

theorem marked_iff_seven_supporting:
  assumes "wf_mat points3d" and "margin_counts cfg points3d"
    and "classify cfg ground_plane points3d = Inr (clearing_points, marking_points)"
  shows "marking_points =
           map (\<lambda>(r, c). cell points3d r c)
             (filter (marks cfg ground_plane points3d) (pixels points3d)) \<and>
         (\<forall>(r, c) \<in> set (pixels points3d).
            valid_point (cell points3d r c) \<and> \<not> in_margin cfg points3d r c \<and>
            \<not> near_floor cfg ground_plane (cell points3d r c) \<longrightarrow>
              (1 \<le> r \<and> Suc r < rows points3d \<and> 1 \<le> c \<and> Suc c < cols points3d) \<and>
              (marks cfg ground_plane points3d (r, c) \<longleftrightarrow>
                 7 \<le> length (filter (supporting (cell points3d r c))
                                (neighbours points3d r c))))"
proof (intro conjI ballI, goal_cases)
  case 1
  from classify_clouds [OF assms(1,3)] show ?case by simp
next
  case (2 rc)
  obtain r c where rc: "rc = (r, c)" by (cases rc)
  with 2 have b: "r < rows points3d" "c < cols points3d"
    by (simp_all add: pixels_def)
  show ?case
    unfolding rc prod.case
  proof (intro impI)
    assume h: "valid_point (cell points3d r c) \<and> \<not> in_margin cfg points3d r c \<and>
               \<not> near_floor cfg ground_plane (cell points3d r c)"
    then have s: "\<not> skipped_ray cfg points3d r c"
      using outside_margin_not_skipped [OF assms(2)] by blast
    from classified_candidate_interior [OF assms(1,3) b] h s
    have "1 \<le> r \<and> Suc r < rows points3d \<and> 1 \<le> c \<and> Suc c < cols points3d" by blast
    moreover from h s have "marks cfg ground_plane points3d (r, c) \<longleftrightarrow>
        7 \<le> length (filter (supporting (cell points3d r c)) (neighbours points3d r c))"
      by (simp add: marks_def)
    ultimately show "(1 \<le> r \<and> Suc r < rows points3d \<and> 1 \<le> c \<and> Suc c < cols points3d) \<and>
        (marks cfg ground_plane points3d (r, c) \<longleftrightarrow>
           7 \<le> length (filter (supporting (cell points3d r c)) (neighbours points3d r c)))"
      by blast
  qed
qed

theorem marked_iff_seven_supporting_witness:
  "classify margin1 shelf grid3 = Inr ([centre], [centre]) \<and>
   [centre] = map (\<lambda>(r, c). cell grid3 r c) (filter (marks margin1 shelf grid3) (pixels grid3)) \<and>
   marks margin1 shelf grid3 (1, 1) \<and>
   length (filter (supporting (cell grid3 1 1)) (neighbours grid3 1 1)) = 8 \<and>
   classify margin1 shelf tenth_grid = Inr ([origin_side], []) \<and>
   \<not> marks margin1 shelf tenth_grid (1, 1) \<and>
   length (filter (supporting (cell tenth_grid 1 1)) (neighbours tenth_grid 1 1)) = 0"
proof -
  have w: "wf_mat grid3" "wf_mat tenth_grid"
    "margin_counts margin1 grid3" "margin_counts margin1 tenth_grid"
    by (simp_all add: wf_mat_def margin_counts_def tenth_grid_def inputs)
  have p: "(1, 1) \<in> set (pixels grid3)" "(1, 1) \<in> set (pixels tenth_grid)"
    by (simp_all add: pixels_def tenth_grid_def inputs)
  have h: "valid_point (cell grid3 1 1) \<and> \<not> in_margin margin1 grid3 1 1 \<and>
           \<not> near_floor margin1 shelf (cell grid3 1 1)"
    "valid_point (cell tenth_grid 1 1) \<and> \<not> in_margin margin1 tenth_grid 1 1 \<and>
           \<not> near_floor margin1 shelf (cell tenth_grid 1 1)"
    by code_simp+
  have n: "length (filter (supporting (cell grid3 1 1)) (neighbours grid3 1 1)) = 8"
    "length (filter (supporting (cell tenth_grid 1 1)) (neighbours tenth_grid 1 1)) = 0"
    by code_simp+
  from marked_iff_seven_supporting [OF w(1) w(3) classify_shelf] p(1) h(1) n(1)
  have a: "[centre] = map (\<lambda>(r, c). cell grid3 r c)
                        (filter (marks margin1 shelf grid3) (pixels grid3))"
    "marks margin1 shelf grid3 (1, 1)"
    by auto
  from marked_iff_seven_supporting [OF w(2) w(4) classify_tenth_grid] p(2) h(2) n(2)
  have b: "\<not> marks margin1 shelf tenth_grid (1, 1)"
    by auto
  show ?thesis
    using a b n classify_shelf classify_tenth_grid by simp
qed

subsection \<open>Points of the floor\<close>

lemma classify_floor: "classify margin1 floor_plane grid3 = Inr ([centre], [])"
  by code_simp

text \<open>
  Claim C6, as the specification states it: a valid point outside the margins with
  \<open>|a x + b y + c z + d|\<close> at most the separation threshold never appears in the marking
  set. The code computes the three products and the three sums in \<^verbatim>\<open>float\<close>, each
  rounded: for the plane \<^verbatim>\<open>(0, -0.8f, -0.6f, 1.1f)\<close> and the point
  \<^verbatim>\<open>(1.015625, 0.375, 1.23333335f)\<close> the distance is 0.05999998 and the threshold 0.06, but
  the code obtains 0.06000006, and the point, whose eight neighbours support it, is marked.
\<close>

theorem exact_distance_within_threshold_marked:
  "cell slope_grid 1 1 = above_slope \<and> valid_point above_slope \<and>
   \<not> in_margin margin1 slope_grid 1 1 \<and> \<not> no_ground_plane slope \<and>
   exact_plane_distance slope above_slope = Fin (2111061636765 / 2 ^ 45) \<and>
   observations_threshold margin1 = Fin (1080863910568919 / 2 ^ 54) \<and>
   fle (exact_plane_distance slope above_slope) (observations_threshold margin1) \<and>
   plane_distance slope above_slope = Fin (503317 / 2 ^ 23) \<and>
   classify margin1 slope slope_grid = Inr ([above_slope], [above_slope])"
  by code_simp

text \<open>
  Claim C6, amended. In a frame whose classification returns, a valid point outside the
  margins for which \<open>|a x + b y + c z + d|\<close>, computed in single precision from left to right
  (each product and each sum rounded to the nearest \<^verbatim>\<open>float\<close>), is at most the separation
  threshold is a point of the floor: it is in the clearing cloud and never in the marking
  cloud, whatever its neighbours are.
\<close>

theorem floor_point_not_marked:
  assumes "wf_mat points3d" and "margin_counts cfg points3d"
    and "classify cfg (Vec4f a b c d) points3d = Inr (clearing_points, marking_points)"
    and "i < rows points3d" and "j < cols points3d"
    and "valid_point (cell points3d i j)" and "\<not> in_margin cfg points3d i j"
    and "fle (fabs (fadd32 (fadd32 (fadd32 (fmul32 a (pt_x (cell points3d i j)))
                                         (fmul32 b (pt_y (cell points3d i j))))
                                 (fmul32 c (pt_z (cell points3d i j)))) d))
           (observations_threshold cfg)"
  shows "cell points3d i j \<in> set clearing_points \<and> cell points3d i j \<notin> set marking_points"
proof -
  let ?p = "cell points3d i j"
  have f: "near_floor cfg (Vec4f a b c d) ?p"
    using assms(8) by (simp add: near_floor_def)
  have s: "\<not> skipped_ray cfg points3d i j"
    using assms(2,7) by (rule outside_margin_not_skipped)
  have px: "(i, j) \<in> set (pixels points3d)"
    using assms(4,5) by (simp add: pixels_def)
  from classify_clouds [OF assms(1,3)] have
    cl: "clearing_points = map (\<lambda>(r, c). cell points3d r c)
           (filter (clears cfg points3d) (pixels points3d))" and
    mk: "marking_points = map (\<lambda>(r, c). cell points3d r c)
           (filter (marks cfg (Vec4f a b c d) points3d) (pixels points3d))"
    by simp_all
  have "clears cfg points3d (i, j)"
    using assms(6) s by (simp add: clears_def)
  with px have "?p \<in> set clearing_points"
    unfolding cl by force
  moreover have "?p \<notin> set marking_points"
  proof
    assume "?p \<in> set marking_points"
    then obtain r c' where "marks cfg (Vec4f a b c d) points3d (r, c')" "cell points3d r c' = ?p"
      unfolding mk by auto
    then have "\<not> near_floor cfg (Vec4f a b c d) ?p"
      by (simp add: marks_def)
    with f show False by contradiction
  qed
  ultimately show ?thesis by blast
qed

theorem floor_point_not_marked_witness:
  "classify margin1 floor_plane grid3 = Inr ([centre], []) \<and>
   cell grid3 1 1 = centre \<and> centre \<in> set [centre] \<and> centre \<notin> set []"
proof -
  have w: "wf_mat grid3" "margin_counts margin1 grid3" "(1::nat) < rows grid3"
    "(1::nat) < cols grid3" "valid_point (cell grid3 1 1)" "\<not> in_margin margin1 grid3 1 1"
    by (simp_all add: wf_mat_def margin_counts_def in_margin_def valid_point_def cell_def
        inputs)
  have f: "fle (fabs (fadd32 (fadd32 (fadd32 (fmul32 (Fin 0) (pt_x (cell grid3 1 1)))
                                         (fmul32 (Fin (- 1)) (pt_y (cell grid3 1 1))))
                                 (fmul32 (Fin 0) (pt_z (cell grid3 1 1)))) (Fin (129 / 128))))
           (observations_threshold margin1)"
    by code_simp
  have c: "cell grid3 1 1 = centre"
    by code_simp
  have e: "classify margin1 (Vec4f (Fin 0) (Fin (- 1)) (Fin 0) (Fin (129 / 128))) grid3 =
             Inr ([centre], [])"
    using classify_floor by (simp add: floor_plane_def)
  from floor_point_not_marked [OF w(1,2) e w(3,4,5,6) f]
  show ?thesis using classify_floor c by simp
qed

subsection \<open>Marking points are clearing points\<close>

text \<open>
  Claim C9. In every frame that is classified, under every configuration, the marking cloud
  is a subsequence of the clearing cloud; in particular every marking point is a clearing
  point.
\<close>

theorem marking_within_clearing:
  assumes "classify cfg ground_plane points3d = Inr (clearing_points, marking_points)"
  shows "subseq marking_points clearing_points \<and> set marking_points \<subseteq> set clearing_points"
proof -
  from assms have "subseq marking_points clearing_points"
    unfolding classify_over_pixels by (rule over_pixels_subseq) simp
  moreover have "x \<in> set clearing_points" if "x \<in> set marking_points" for x
    using \<open>subseq marking_points clearing_points\<close> that by (auto elim: list_emb_set)
  ultimately show ?thesis by blast
qed

theorem marking_within_clearing_witness:
  "classify (margin1\<lparr>clear_with_skipped_rays := True\<rparr>) shelf grid3 = Inr (elems grid3, [centre]) \<and>
   subseq [centre] (elems grid3) \<and> set [centre] \<subseteq> set (elems grid3)"
proof -
  have e: "classify (margin1\<lparr>clear_with_skipped_rays := True\<rparr>) shelf grid3 =
             Inr (elems grid3, [centre])"
    by code_simp
  show ?thesis using marking_within_clearing [OF e] e by simp
qed

section \<open>The callback returns\<close>

text \<open>When the camera looks for the ground plane, the decoded image and the point grid hold
  one element per pixel and the margins fit, no exception and no read outside a matrix ends
  the callback: it returns, with the layer it leaves and its events.\<close>

lemma clear_nans_stage_total:
  assumes "wf_mat decoded"
  shows "\<exists>img. clear_nans_stage cfg decoded = Inr img"
  using assms clear_nans_loop_map [of decoded 0]
  by (simp add: clear_nans_stage_def wf_mat_def)

lemma depthImageCallback_returns:
  assumes "find_ground_plane cfg"
    and "\<And>decoded. toCvCopy env msg = Inr decoded \<Longrightarrow> wf_mat decoded"
    and "\<And>img k. wf_mat (depthTo3d env img k) \<and> margins_fit cfg (depthTo3d env img k)"
  shows "\<exists>st' evs. depthImageCallback cfg env st msg = Inr (st', evs)"
proof (cases "K st")
  case None
  then show ?thesis by (simp add: depthImageCallback_def)
next
  case (Some k)
  show ?thesis
  proof (cases "toCvCopy env msg")
    case (Inl what)
    with Some show ?thesis by (simp add: depthImageCallback_def)
  next
    case (Inr decoded)
    from clear_nans_stage_total [OF assms(2) [OF Inr], of cfg]
    obtain img where img: "clear_nans_stage cfg decoded = Inr img" by blast
    let ?p = "depthTo3d env img k"
    obtain ground_plane st' where
      gp: "ground_plane_stage cfg env st msg img k ?p = Inr (ground_plane, st')"
      using assms(1) by (cases "ground_plane_camera cfg env st img k ?p")
        (simp add: ground_plane_stage_def)
    show ?thesis
    proof (cases "no_ground_plane ground_plane")
      case True
      with Some Inr img gp show ?thesis
        by (simp add: depthImageCallback_def Let_def)
    next
      case False
      from assms(3) [of img k] have "wf_mat ?p" "margins_fit cfg ?p" by simp_all
      then obtain cl mk where "classify cfg ground_plane ?p = Inr (cl, mk)"
        using classify_total [of ?p cfg ground_plane] by (auto simp: margins_fit_def)
      from depthImageCallback_processed [OF Some Inr img gp False this]
      show ?thesis by blast
    qed
  qed
qed

end
